theory Spec2Isabelle
  imports Main "HOL-Library.Word"
begin

section \<open>JavaScript values\<close>

text \<open>
  The gateway is written in JavaScript and tests its values for truthiness rather than
  for a type (\<^verbatim>\<open>if (err)\<close>, \<^verbatim>\<open>args.id && ...\<close>,
  \<^verbatim>\<open>x || y\<close>), so the values that flow through the modelled functions are kept
  untyped, as the language has them. Strings are lists of characters; an object is the list
  of its own enumerable properties in the order the engine enumerates them (insertion order
  for the property names used here). Two kinds of values are left out. Numbers are the
  integers that the language holds exactly and prints digit by digit, those of magnitude up
  to \<open>2 ^ 53\<close>: \<open>Num n\<close> stands for a value of the program only for such \<open>n\<close>, and
  fractions, \<^verbatim>\<open>NaN\<close> and the infinities have no counterpart. An array is the list of its
  elements only: an array that has been given named properties of its own has no
  counterpart either.
\<close>

datatype jsval =
    Undefined
  | Null
  | Bool bool
  | Num int
  | Str string
  | Arr "jsval list"
  | Obj "(string \<times> jsval) list"

datatype js_error =
    TypeError
  | AssertionError
  | RangeError
  | Error jsval        \<comment> \<open>\<^verbatim>\<open>new Error(msg)\<close>\<close>
  | ErrVal jsval       \<comment> \<open>an error value handed over by a collaborator\<close>

fun truthy :: "jsval \<Rightarrow> bool" where
  "truthy Undefined = False"
| "truthy Null = False"
| "truthy (Bool b) = b"
| "truthy (Num n) = (n \<noteq> 0)"
| "truthy (Str s) = (s \<noteq> [])"
| "truthy (Arr _) = True"
| "truthy (Obj _) = True"

definition field :: "(string \<times> jsval) list \<Rightarrow> string \<Rightarrow> jsval" where
  "field ps k = (case map_of ps k of None \<Rightarrow> Undefined | Some v \<Rightarrow> v)"

text \<open>
  Reading a property \<^verbatim>\<open>v.k\<close>, for the property names the modelled code reads
  (none of them is built into strings, arrays or \<^verbatim>\<open>Object.prototype\<close>):
  \<^verbatim>\<open>undefined\<close> and \<^verbatim>\<open>null\<close> throw, a primitive or an array has no such
  property.
\<close>

fun js_get :: "jsval \<Rightarrow> string \<Rightarrow> js_error + jsval" where
  "js_get Undefined k = Inl TypeError"
| "js_get Null k = Inl TypeError"
| "js_get (Obj ps) k = Inr (field ps k)"
| "js_get _ k = Inr Undefined"

text \<open>The property \<^verbatim>\<open>v.k\<close> of a value that is neither \<^verbatim>\<open>undefined\<close> nor \<^verbatim>\<open>null\<close>.\<close>

fun member :: "jsval \<Rightarrow> string \<Rightarrow> jsval" where
  "member (Obj ps) k = field ps k"
| "member _ k = Undefined"

text \<open>Assigning \<^verbatim>\<open>o.k = v\<close> on an object: an existing property keeps its place.\<close>

fun set_prop :: "(string \<times> jsval) list \<Rightarrow> string \<Rightarrow> jsval \<Rightarrow> (string \<times> jsval) list" where
  "set_prop [] k v = [(k, v)]"
| "set_prop ((k', v') # ps) k v = (if k' = k then (k, v) # ps else (k', v') # set_prop ps k v)"

subsection \<open>\<^verbatim>\<open>JSON.stringify\<close>\<close>

definition hexdigit :: "nat \<Rightarrow> char" where
  "hexdigit n = (''0123456789abcdef'') ! (n mod 16)"

text \<open>
  A character inside a JSON string: the quote and the backslash are escaped, a control
  character has its short escape or \<^verbatim>\<open>\u00XX\<close>.
\<close>

definition quote_char :: "char \<Rightarrow> string" where
  "quote_char c =
     (if c = CHR 0x22 then [CHR 0x5C, CHR 0x22]
      else if c = CHR 0x5C then [CHR 0x5C, CHR 0x5C]
      else if c = CHR 0x08 then [CHR 0x5C, CHR ''b'']
      else if c = CHR 0x0C then [CHR 0x5C, CHR ''f'']
      else if c = CHR 0x0A then [CHR 0x5C, CHR ''n'']
      else if c = CHR 0x0D then [CHR 0x5C, CHR ''r'']
      else if c = CHR 0x09 then [CHR 0x5C, CHR ''t'']
      else if (of_char c :: nat) < 32
        then [CHR 0x5C, CHR ''u'', CHR ''0'', CHR ''0'',
              hexdigit (of_char c div 16), hexdigit (of_char c)]
      else [c])"

definition quote :: "string \<Rightarrow> string" where
  "quote s = CHR 0x22 # concat (map quote_char s) @ [CHR 0x22]"

fun digits :: "nat \<Rightarrow> string" where
  "digits n = (if n < 10 then [hexdigit n] else digits (n div 10) @ [hexdigit (n mod 10)])"

definition show_int :: "int \<Rightarrow> string" where
  "show_int i = (if i < 0 then CHR ''-'' # digits (nat (- i)) else digits (nat i))"

fun join :: "string \<Rightarrow> string list \<Rightarrow> string" where
  "join sep [] = []"
| "join sep [x] = x"
| "join sep (x # y # ys) = x @ sep @ join sep (y # ys)"

text \<open>
  \<^verbatim>\<open>JSON.stringify\<close> of a value other than \<^verbatim>\<open>undefined\<close>: compact, no white
  space. A property whose value is \<^verbatim>\<open>undefined\<close> is left out of an object; an
  \<^verbatim>\<open>undefined\<close> array element is written \<^verbatim>\<open>null\<close>.
\<close>

fun stringify :: "jsval \<Rightarrow> string"
  and stringify_elems :: "jsval list \<Rightarrow> string list"
  and stringify_props :: "(string \<times> jsval) list \<Rightarrow> string list" where
  "stringify Undefined = ''null''"
| "stringify Null = ''null''"
| "stringify (Bool b) = (if b then ''true'' else ''false'')"
| "stringify (Num n) = show_int n"
| "stringify (Str s) = quote s"
| "stringify (Arr xs) = ''['' @ join '','' (stringify_elems xs) @ '']''"
| "stringify (Obj ps) = ''{'' @ join '','' (stringify_props ps) @ ''}''"
| "stringify_elems [] = []"
| "stringify_elems (x # xs) = stringify x # stringify_elems xs"
| "stringify_props [] = []"
| "stringify_props ((k, v) # ps) =
     (if v = Undefined then stringify_props ps
      else (quote k @ '':'' @ stringify v) # stringify_props ps)"

text \<open>\<^verbatim>\<open>JSON.stringify(v)\<close>: \<^verbatim>\<open>undefined\<close> has no JSON text.\<close>

definition JSON_stringify :: "jsval \<Rightarrow> string option" where
  "JSON_stringify v = (if v = Undefined then None else Some (stringify v))"

section \<open>Progress stream\<close>

text \<open>
  The HTTP response a handler writes to: \<^verbatim>\<open>res.status\<close>, \<^verbatim>\<open>res.header\<close>,
  \<^verbatim>\<open>res.write\<close> and \<^verbatim>\<open>res.end\<close>. Every \<^verbatim>\<open>res.write\<close> call adds one chunk;
  the body a client reads is the concatenation of the chunks.
\<close>

record response =
  res_status :: "nat option"
  res_headers :: "(string \<times> string) list"
  res_chunks :: "string list"
  res_ended :: bool

definition res_write :: "response \<Rightarrow> string \<Rightarrow> response" where
  "res_write res chunk = res\<lparr>res_chunks := res_chunks res @ [chunk]\<rparr>"

definition ebind :: "'e + 'a \<Rightarrow> ('a \<Rightarrow> 'e + 'b) \<Rightarrow> 'e + 'b" where
  "ebind m f = (case m of Inl e \<Rightarrow> Inl e | Inr x \<Rightarrow> f x)"

text \<open>\<^verbatim>\<open>s.substr(0, 12)\<close>: only a string has the method.\<close>

fun substr_0_12 :: "jsval \<Rightarrow> js_error + jsval" where
  "substr_0_12 (Str s) = Inr (Str (take 12 s))"
| "substr_0_12 _ = Inl TypeError"

text \<open>
  \<^verbatim>\<open>
  function formatProgress(args) {
      var progress = {};
      progress.id = (args.id && args.id.substr(0, 12)) || '';
      progress.status = args.status;
      progress.progressDetail = args.progressDetail;
      return progress;
  }
  \<close>
\<close>

definition formatProgress :: "jsval \<Rightarrow> js_error + jsval" where
  "formatProgress args =
     ebind (js_get args ''id'') (\<lambda>i.
     ebind (if truthy i then substr_0_12 i else Inr i) (\<lambda>a.
     ebind (js_get args ''status'') (\<lambda>st.
     ebind (js_get args ''progressDetail'') (\<lambda>d.
       Inr (Obj [(''id'', if truthy a then a else Str []),
                 (''status'', st),
                 (''progressDetail'', d)])))))"

text \<open>
  Assigning a property: on an object it is set; on a primitive the assignment is dropped
  (the module is not in strict mode); on \<^verbatim>\<open>undefined\<close> and \<^verbatim>\<open>null\<close> it throws.
  The one assignment of the modelled code, in \<^verbatim>\<open>writeProgress\<close>, is to the object that
  \<^verbatim>\<open>formatProgress\<close> has just built. An array would keep the property in the language; it
  does not in this model, where arrays have elements only, so the last equation is meant
  for primitives.
\<close>

fun js_set :: "jsval \<Rightarrow> string \<Rightarrow> jsval \<Rightarrow> js_error + jsval" where
  "js_set Undefined k v = Inl TypeError"
| "js_set Null k v = Inl TypeError"
| "js_set (Obj ps) k v = Inr (Obj (set_prop ps k v))"
| "js_set x k v = Inr x"

text \<open>
  \<^verbatim>\<open>res.write(JSON.stringify(v))\<close>; \<^verbatim>\<open>res.write\<close> takes a string, and
  \<^verbatim>\<open>JSON.stringify(undefined)\<close> is none.
\<close>

definition write_json :: "response \<Rightarrow> jsval \<Rightarrow> js_error + response" where
  "write_json res v =
     (case JSON_stringify v of None \<Rightarrow> Inl TypeError | Some s \<Rightarrow> Inr (res_write res s))"

text \<open>
  \<^verbatim>\<open>
  function writeProgress(res, progress) {
      if (!progress.progressDetail) {
          progress.progressDetail = {};
      }
      res.write(JSON.stringify(formatProgress(progress)));
  }
  \<close>
  The result is the response after the call and the caller's \<^verbatim>\<open>progress\<close> object,
  which the function may have changed.
\<close>

definition writeProgress :: "response \<Rightarrow> jsval \<Rightarrow> js_error + response \<times> jsval" where
  "writeProgress res progress =
     ebind (js_get progress ''progressDetail'') (\<lambda>d.
     ebind (if \<not> truthy d then js_set progress ''progressDetail'' (Obj []) else Inr progress)
       (\<lambda>progress'.
     ebind (formatProgress progress') (\<lambda>p.
     ebind (write_json res p) (\<lambda>res'. Inr (res', progress')))))"

text \<open>
  \<^verbatim>\<open>
  function writeStatus(res, progress) {
      res.write(JSON.stringify(formatProgress(progress)));
  }
  \<close>
\<close>

definition writeStatus :: "response \<Rightarrow> jsval \<Rightarrow> js_error + response \<times> jsval" where
  "writeStatus res progress =
     ebind (formatProgress progress) (\<lambda>p.
     ebind (write_json res p) (\<lambda>res'. Inr (res', progress)))"

text \<open>The JSON text of a progress event with the given short id, status and detail.\<close>

definition progress_json :: "string \<Rightarrow> string \<Rightarrow> string \<Rightarrow> string" where
  \<open>progress_json i st d =
     ''{"id":'' @ quote i @ '',"status":'' @ quote st @ '',"progressDetail":'' @ d @ ''}''\<close>

definition empty_response :: response where
  "empty_response = \<lparr>res_status = None, res_headers = [], res_chunks = [], res_ended = False\<rparr>"

section \<open>Waiting for a workflow job\<close>

text \<open>
  The workflow client is a collaborator: \<^verbatim>\<open>client.getJob(job_uuid, function (err, job) ...)\<close>.
  Its answers are given by the number of the call, counted from 0: \<open>client k\<close> is the pair
  \<^verbatim>\<open>(err, job)\<close> the callback receives on call \<open>k\<close>. \<^verbatim>\<open>pollJob\<close> counts every answer in
  \<^verbatim>\<open>attempts\<close>, so call \<open>k\<close> is the one made while \<^verbatim>\<open>attempts\<close> is \<open>k\<close>.
\<close>

type_synonym wf_client = "nat \<Rightarrow> jsval \<times> jsval"

text \<open>
  What \<^verbatim>\<open>pollJob\<close> leaves behind: its two counters, and the delays (in milliseconds) of
  the timers it has set with \<^verbatim>\<open>setTimeout(poll, timeout)\<close>, in order.
\<close>

record poll_state =
  attempts :: nat
  errors :: nat
  timers :: "nat list"

definition timeout :: nat where
  "timeout = 1000"

definition limit :: nat where
  "limit = 720"

text \<open>\<^verbatim>\<open>job && job.execution === s\<close>\<close>

definition execution_is :: "jsval \<Rightarrow> string \<Rightarrow> bool" where
  "execution_is job s = (truthy job \<and> js_get job ''execution'' = Inr (Str s))"

text \<open>
  \<^verbatim>\<open>
  var poll = function () {
      client.getJob(job_uuid, function (err, job) {
          attempts++;
          if (err) {
              errors++;
              if (errors >= 5) {
                  return cb(err);
              } else {
                  return setTimeout(poll, timeout);
              }
          }
          if (job && job.execution === 'succeeded') {
              return cb(null, job);
          } else if (job && job.execution === 'failed') {
              return cb(null, job);
          } else if (attempts > limit) {
              return cb(new Error('polling for job timed out'), job);
          }
          return setTimeout(poll, timeout);
      });
  };
  \<close>
  The result is the pair \<^verbatim>\<open>(err, job)\<close> handed to \<^verbatim>\<open>cb\<close> (\<open>None\<close> for \<^verbatim>\<open>null\<close>,
  \<open>Undefined\<close> for an argument that is not passed) and the state at that moment.
\<close>

function poll :: "wf_client \<Rightarrow> nat \<Rightarrow> nat \<Rightarrow> nat list
    \<Rightarrow> (js_error option \<times> jsval) \<times> poll_state" where
  "poll client attempts0 errors0 timers0 =
     (let err = fst (client attempts0); job = snd (client attempts0);
          attempts1 = attempts0 + 1
      in if truthy err then
           (let errors1 = errors0 + 1
            in if errors1 \<ge> 5
               then ((Some (ErrVal err), Undefined),
                     \<lparr>attempts = attempts1, errors = errors1, timers = timers0\<rparr>)
               else poll client attempts1 errors1 (timers0 @ [timeout]))
         else if execution_is job ''succeeded''
           then ((None, job), \<lparr>attempts = attempts1, errors = errors0, timers = timers0\<rparr>)
         else if execution_is job ''failed''
           then ((None, job), \<lparr>attempts = attempts1, errors = errors0, timers = timers0\<rparr>)
         else if attempts1 > limit
           then ((Some (Error (Str ''polling for job timed out'')), job),
                 \<lparr>attempts = attempts1, errors = errors0, timers = timers0\<rparr>)
         else poll client attempts1 errors0 (timers0 @ [timeout]))"
  by pat_completeness auto
termination
  by (relation "measure (\<lambda>(c, a, e, ts). (5 - e) + (721 - a))") (auto simp: limit_def)

declare poll.simps [simp del]

text \<open>
  \<^verbatim>\<open>pollJob(client, job_uuid, cb)\<close> sets \<^verbatim>\<open>attempts = 0\<close>, \<^verbatim>\<open>errors = 0\<close> and polls.
\<close>

definition pollJob :: "wf_client \<Rightarrow> (js_error option \<times> jsval) \<times> poll_state" where
  "pollJob client = poll client 0 0 []"

text \<open>
  \<^verbatim>\<open>a.pop()\<close>: the last element (\<^verbatim>\<open>undefined\<close> when there is none) and the array that
  is left; only an array has the method.
\<close>

fun array_pop :: "jsval \<Rightarrow> js_error + jsval \<times> jsval" where
  "array_pop (Arr xs) = Inr (if xs = [] then Undefined else last xs, Arr (butlast xs))"
| "array_pop _ = Inl TypeError"

definition json_or_undefined :: "jsval \<Rightarrow> jsval" where
  "json_or_undefined v = (case JSON_stringify v of None \<Rightarrow> Undefined | Some s \<Rightarrow> Str s)"

text \<open>
  The callback \<^verbatim>\<open>waitForJob\<close> gives to \<^verbatim>\<open>pollJob\<close>:
  \<^verbatim>\<open>
  function (err, job) {
      if (err)
          return cb(err);
      var result = job.chain_results.pop();
      if (result.error) {
          var errmsg = result.error.message || JSON.stringify(result.error);
          return cb(new Error(errmsg));
      } else {
          return cb();
      }
  }
  \<close>
  \<open>Inr None\<close> is \<^verbatim>\<open>cb()\<close>, \<open>Inr (Some e)\<close> is \<^verbatim>\<open>cb(e)\<close>, and \<open>Inl e\<close> is the
  exception \<open>e\<close> thrown inside the callback, with \<^verbatim>\<open>cb\<close> never called.
\<close>

definition polled :: "js_error option \<Rightarrow> jsval \<Rightarrow> js_error + js_error option" where
  "polled err job =
     (case err of
        Some e \<Rightarrow> Inr (Some e)
      | None \<Rightarrow>
          ebind (js_get job ''chain_results'') (\<lambda>chain_results.
          ebind (array_pop chain_results) (\<lambda>popped.
          let result = fst popped in
          ebind (js_get result ''error'') (\<lambda>error.
            if truthy error then
              ebind (js_get error ''message'') (\<lambda>message.
                let errmsg = (if truthy message then message else json_or_undefined error)
                in Inr (Some (Error errmsg)))
            else Inr None))))"

text \<open>
  \<^verbatim>\<open>
  function waitForJob(wfClient, job_uuid, cb) {
      assert.string(job_uuid, 'job_uuid');
      assert.func(cb, 'cb');
      pollJob(wfClient, job_uuid, function (err, job) { ... });
  }
  \<close>
  \<^verbatim>\<open>cb\<close> is the continuation, so it is a function.
\<close>

definition waitForJob :: "wf_client \<Rightarrow> jsval \<Rightarrow> (js_error + js_error option) \<times> poll_state" where
  "waitForJob wfClient job_uuid =
     (case job_uuid of
        Str _ \<Rightarrow> (let r = pollJob wfClient in (polled (fst (fst r)) (snd (fst r)), snd r))
      | _ \<Rightarrow> (Inl AssertionError, \<lparr>attempts = 0, errors = 0, timers = []\<rparr>))"

text \<open>Call \<open>i\<close> of \<^verbatim>\<open>getJob\<close> answers with an error.\<close>

definition fetch_failed :: "wf_client \<Rightarrow> nat \<Rightarrow> bool" where
  "fetch_failed client i = truthy (fst (client i))"

definition terminal :: "jsval \<Rightarrow> bool" where
  "terminal job = (execution_is job ''succeeded'' \<or> execution_is job ''failed'')"

text \<open>Call \<open>i\<close> of \<^verbatim>\<open>getJob\<close> answers with a job in a terminal state.\<close>

definition fetched_terminal :: "wf_client \<Rightarrow> nat \<Rightarrow> bool" where
  "fetched_terminal client i = (\<not> fetch_failed client i \<and> terminal (snd (client i)))"

text \<open>The number of calls \<open>a, \<dots>, n - 1\<close> that answer with an error.\<close>

definition fetch_errors :: "wf_client \<Rightarrow> nat \<Rightarrow> nat \<Rightarrow> nat" where
  "fetch_errors client a n = length (filter (fetch_failed client) [a..<n])"

text \<open>None of the calls \<open>0, \<dots>, n - 1\<close> answers with a job in a terminal state.\<close>

definition none_terminal :: "wf_client \<Rightarrow> nat \<Rightarrow> bool" where
  "none_terminal client n = list_all (\<lambda>i. \<not> fetched_terminal client i) [0..<n]"

text \<open>
  \<^verbatim>\<open>pollJob\<close> reaches call \<open>n\<close> of \<^verbatim>\<open>getJob\<close> and fetches \<open>job\<close> there, in a
  terminal state: no earlier call fetched a terminal job, at most four calls before it
  answered with an error, and \<open>n\<close> is within the attempt limit.
\<close>

definition fetches_terminal :: "wf_client \<Rightarrow> nat \<Rightarrow> jsval \<Rightarrow> bool" where
  "fetches_terminal client n job =
     (n \<le> limit \<and> none_terminal client n \<and> fetch_errors client 0 n \<le> 4
      \<and> fetched_terminal client n \<and> job = snd (client n))"

subsection \<open>Example clients\<close>

definition fetch_error :: jsval where
  "fetch_error = Obj [(''message'', Str ''connect ECONNREFUSED'')]"

text \<open>A job that succeeded; its last step result has the empty string as its error.\<close>

definition done_job :: jsval where
  "done_job = Obj [(''execution'', Str ''succeeded''),
     (''chain_results'', Arr [Obj [(''result'', Str ''OK''), (''error'', Str [])]])]"

text \<open>A job that failed in its second step.\<close>

definition failed_job :: jsval where
  "failed_job = Obj [(''execution'', Str ''failed''),
     (''chain_results'', Arr [Obj [(''result'', Str ''OK''), (''error'', Str [])],
        Obj [(''result'', Str []),
             (''error'', Obj [(''name'', Str ''Error''), (''message'', Str ''no server'')])]])]"

text \<open>A job in state failed whose last step result has the empty string as its error.\<close>

definition failed_job_without_error :: jsval where
  "failed_job_without_error = Obj [(''execution'', Str ''failed''),
     (''chain_results'', Arr [Obj [(''result'', Str ''OK''), (''error'', Str [])]])]"

definition running_job :: jsval where
  "running_job = Obj [(''execution'', Str ''running''), (''chain_results'', Arr [])]"

text \<open>The first \<open>k\<close> calls answer with an error, every later call with \<open>job\<close>.\<close>

definition flaky_client :: "nat \<Rightarrow> jsval \<Rightarrow> wf_client" where
  "flaky_client k job i = (if i < k then (fetch_error, Undefined) else (Null, job))"

text \<open>Every call answers with the running job.\<close>

definition running_client :: wf_client where
  "running_client i = (Null, running_job)"

text \<open>A job in state succeeded whose last step result carries an error.\<close>

definition odd_job :: jsval where
  "odd_job = Obj [(''execution'', Str ''succeeded''),
     (''chain_results'', Arr [Obj [(''result'', Str ''OK''), (''error'', Str [])],
        Obj [(''result'', Str []), (''error'', Str ''task timeout'')]])]"

section \<open>Raw multiplexed frames\<close>

text \<open>
  A \<^verbatim>\<open>Buffer\<close> is the list of its bytes. The payload \<^verbatim>\<open>data\<close> of a frame is a
  \<^verbatim>\<open>Buffer\<close>, so \<^verbatim>\<open>data.length\<close> counts bytes and \<^verbatim>\<open>data.toString()\<close> decodes
  them as UTF-8. A string is the list of its code points here.
\<close>

type_synonym byte = "8 word"

text \<open>
  \<^verbatim>\<open>var STREAM_TYPES = { stdin: 0, stdout: 1, stderr: 2 };\<close>
  The callers name one of the three channels.
\<close>

datatype stream_type = Stdin | Stdout | Stderr

fun STREAM_TYPES :: "stream_type \<Rightarrow> nat" where
  "STREAM_TYPES Stdin = 0"
| "STREAM_TYPES Stdout = 1"
| "STREAM_TYPES Stderr = 2"

text \<open>
  \<^verbatim>\<open>new Buffer(n)\<close> does not initialise its memory: byte \<open>i\<close> of the new buffer is
  whatever the memory holds, \<open>mem i\<close>.
\<close>

definition new_Buffer :: "(nat \<Rightarrow> byte) \<Rightarrow> nat \<Rightarrow> byte list" where
  "new_Buffer mem n = map mem [0..<n]"

text \<open>
  \<^verbatim>\<open>buf.writeUInt8(v, offset)\<close> and \<^verbatim>\<open>buf.writeUInt32BE(v, offset)\<close> refuse a value
  that does not fit and a write outside the buffer (the kind of error differs between
  versions of the runtime; it is called \<open>RangeError\<close> here). \<^verbatim>\<open>buf[i] = v\<close> is a
  list update, which leaves the buffer as it is when \<open>i\<close> is outside it.
\<close>

definition writeUInt8 :: "byte list \<Rightarrow> nat \<Rightarrow> nat \<Rightarrow> js_error + byte list" where
  "writeUInt8 buf v offset =
     (if v > 255 then Inl RangeError
      else if offset + 1 > length buf then Inl RangeError
      else Inr (buf[offset := of_nat v]))"

definition uint32be :: "nat \<Rightarrow> byte list" where
  "uint32be v = [of_nat (v div 16777216), of_nat (v div 65536), of_nat (v div 256), of_nat v]"

definition writeUInt32BE :: "byte list \<Rightarrow> nat \<Rightarrow> nat \<Rightarrow> js_error + byte list" where
  "writeUInt32BE buf v offset =
     (if v > 4294967295 then Inl RangeError
      else if offset + 4 > length buf then Inl RangeError
      else Inr (buf[offset := uint32be v ! 0,
                    offset + 1 := uint32be v ! 1,
                    offset + 2 := uint32be v ! 2,
                    offset + 3 := uint32be v ! 3]))"

text \<open>
  \<^verbatim>\<open>data.toString()\<close>: the code points of the UTF-8 text in \<open>data\<close>. Where the
  bytes are not well formed, the longest run of bytes that begins a well-formed sequence (one
  byte when there is none) is decoded as one U+FFFD (65533), and decoding goes on after it.
  \<open>second_byte n c\<close> says that \<open>c\<close> may follow the lead byte \<open>n\<close> of a sequence of three
  or four bytes.
\<close>

definition continuation :: "byte \<Rightarrow> bool" where
  "continuation b = (128 \<le> unat b \<and> unat b < 192)"

definition second_byte :: "nat \<Rightarrow> byte \<Rightarrow> bool" where
  "second_byte n c =
     (continuation c
      \<and> (if n = 224 then 160 \<le> unat c else True)
      \<and> (if n = 237 then unat c < 160 else True)
      \<and> (if n = 240 then 144 \<le> unat c else True)
      \<and> (if n = 244 then unat c < 144 else True))"

definition low6 :: "byte \<Rightarrow> nat" where
  "low6 b = unat b mod 64"

fun toString :: "byte list \<Rightarrow> nat list" where
  "toString [] = []"
| "toString (b # bs) =
     (let n = unat b in
      if n < 128 then n # toString bs
      else if 194 \<le> n \<and> n < 224 then
        (case bs of
           [] \<Rightarrow> [65533]
         | c1 # r \<Rightarrow>
             if continuation c1 then ((n mod 32) * 64 + low6 c1) # toString r
             else 65533 # toString bs)
      else if 224 \<le> n \<and> n < 240 then
        (case bs of
           [] \<Rightarrow> [65533]
         | c1 # r \<Rightarrow>
             if second_byte n c1 then
               (case r of
                  [] \<Rightarrow> [65533]
                | c2 # r2 \<Rightarrow>
                    if continuation c2
                    then ((n mod 16) * 4096 + low6 c1 * 64 + low6 c2) # toString r2
                    else 65533 # toString r)
             else 65533 # toString bs)
      else if 240 \<le> n \<and> n < 245 then
        (case bs of
           [] \<Rightarrow> [65533]
         | c1 # r \<Rightarrow>
             if second_byte n c1 then
               (case r of
                  [] \<Rightarrow> [65533]
                | c2 # r2 \<Rightarrow>
                    if continuation c2 then
                      (case r2 of
                         [] \<Rightarrow> [65533]
                       | c3 # r3 \<Rightarrow>
                           if continuation c3
                           then ((n mod 8) * 262144 + low6 c1 * 4096 + low6 c2 * 64 + low6 c3)
                                # toString r3
                           else 65533 # toString r2)
                    else 65533 # toString r)
             else 65533 # toString bs)
      else 65533 # toString bs)"

text \<open>The UTF-8 bytes of a code point; a lone surrogate is written as U+FFFD.\<close>

definition utf8_char :: "nat \<Rightarrow> byte list" where
  "utf8_char c =
     (if c < 128 then [of_nat c]
      else if c < 2048 then [of_nat (192 + c div 64), of_nat (128 + c mod 64)]
      else if 55296 \<le> c \<and> c < 57344 then [239, 191, 189]
      else if c < 65536 then
        [of_nat (224 + c div 4096), of_nat (128 + c div 64 mod 64), of_nat (128 + c mod 64)]
      else [of_nat (240 + c div 262144), of_nat (128 + c div 4096 mod 64),
            of_nat (128 + c div 64 mod 64), of_nat (128 + c mod 64)])"

text \<open>
  \<^verbatim>\<open>buf.write(string, offset)\<close> writes the string as UTF-8 from \<open>offset\<close> on, as far
  as whole characters fit into the buffer: the bytes of a character that does not fit are
  not written, and nothing after it is.
\<close>

fun utf8_fit :: "nat list \<Rightarrow> nat \<Rightarrow> byte list" where
  "utf8_fit [] room = []"
| "utf8_fit (c # cs) room =
     (if length (utf8_char c) \<le> room
      then utf8_char c @ utf8_fit cs (room - length (utf8_char c))
      else [])"

definition buffer_write :: "byte list \<Rightarrow> nat list \<Rightarrow> nat \<Rightarrow> byte list" where
  "buffer_write buf s offset =
     (let bs = utf8_fit s (length buf - offset)
      in take offset buf @ bs @ drop (offset + length bs) buf)"

text \<open>
  \<^verbatim>\<open>
  function writeToDockerRawStream(type, stream, data) {
      var streamType = STREAM_TYPES[type];
      var messageSize = data.length;
      var message = new Buffer(8 + messageSize);

      message.writeUInt8(streamType, 0);
      message[1] = 0;
      message[2] = 0;
      message[3] = 0;
      message.writeUInt32BE(messageSize, 4);
      message.write(data.toString(), 8);
      stream.write(message);
  }
  \<close>
  The stream is the list of the buffers written to it.
\<close>

definition writeToDockerRawStream ::
    "(nat \<Rightarrow> byte) \<Rightarrow> stream_type \<Rightarrow> byte list list \<Rightarrow> byte list \<Rightarrow> js_error + byte list list" where
  "writeToDockerRawStream mem type stream data =
     (let streamType = STREAM_TYPES type;
          messageSize = length data;
          message = new_Buffer mem (8 + messageSize)
      in ebind (writeUInt8 message streamType 0) (\<lambda>m0.
         let m3 = m0[1 := 0, 2 := 0, 3 := 0]
         in ebind (writeUInt32BE m3 messageSize 4) (\<lambda>m4.
            Inr (stream @ [buffer_write m4 (toString data) 8]))))"

text \<open>A payload of ASCII characters only.\<close>

definition ascii :: "byte list \<Rightarrow> bool" where
  "ascii data = list_all (\<lambda>b. unat b < 128) data"

section \<open>Image endpoints\<close>

text \<open>
  An exception thrown by the registry client library when it parses a reference: its
  \<^verbatim>\<open>name\<close> and its \<^verbatim>\<open>message\<close>. \<^verbatim>\<open>e.toString()\<close> joins the two.
\<close>

datatype exn = Exn (exn_name: string) (exn_message: string)

definition exn_toString :: "exn \<Rightarrow> string" where
  "exn_toString e =
     (if exn_name e = [] then exn_message e
      else if exn_message e = [] then exn_name e
      else exn_name e @ '': '' @ exn_message e)"

text \<open>
  The error classes of the gateway's \<^verbatim>\<open>errors\<close> module that the image endpoints
  construct, with the arguments they are constructed with.
\<close>

datatype api_error =
    DockerError exn string
  | ValidationError exn string
  | NotImplementedError string
  | ResourceNotFoundError string

text \<open>
  Modelled from the spec: the HTTP status of an error class. The module that defines the
  error classes (\<^verbatim>\<open>lib/errors.js\<close>) is not among the sources; the spec's taxonomy gives
  501 for \<^verbatim>\<open>NotImplementedError\<close> and 404 for \<^verbatim>\<open>ResourceNotFoundError\<close>, an unnamed
  4xx status for \<^verbatim>\<open>ValidationError\<close>, and no status for \<^verbatim>\<open>DockerError\<close>.
\<close>

fun statusCode :: "api_error \<Rightarrow> nat option" where
  "statusCode (NotImplementedError _) = Some 501"
| "statusCode (ResourceNotFoundError _) = Some 404"
| "statusCode _ = None"

fun is_ValidationError :: "api_error \<Rightarrow> bool" where
  "is_ValidationError (ValidationError _ _) = True"
| "is_ValidationError _ = False"

text \<open>
  What the library's parsers return, as far as the endpoints read or write it: a parsed
  repository with tag or digest, and a parsed repository.
\<close>

record rat =
  rat_tag :: jsval
  rat_digest :: jsval
  rat_canonicalName :: string

record repo =
  repo_official :: bool
  repo_localName :: string
  repo_remoteName :: string
  repo_canonicalName :: string

text \<open>
  The calls an endpoint makes to the backend, to the socket table of the application and to
  the registry.
\<close>

datatype backend_call =
    PullImage rat
  | RemoveSocket string string
  | PushImage jsval rat string
  | TagImage jsval string
  | RegistrySearch string string

text \<open>
  How a handler hands over: \<^verbatim>\<open>next()\<close>, \<^verbatim>\<open>next(false)\<close>, \<^verbatim>\<open>next(err)\<close> with an
  error it constructed, or \<^verbatim>\<open>next(err)\<close> with an error value a collaborator gave it.
\<close>

datatype next_arg =
    Next
  | NextFalse
  | NextError api_error
  | NextErrVal jsval

text \<open>
  What a handler has done when it returns: its call of \<^verbatim>\<open>next\<close>, the response, the
  calls it made, and the time-out (in milliseconds) it set on the connection, if any.
\<close>

record outcome =
  out_next :: next_arg
  out_res :: response
  out_calls :: "backend_call list"
  out_timeout :: "nat option"

text \<open>
  The request, as far as the handlers read it: the query parameters, \<^verbatim>\<open>req.params.name\<close>,
  and \<^verbatim>\<open>req.image\<close>, \<^verbatim>\<open>req.images\<close>, \<^verbatim>\<open>req.imageTags\<close> as earlier handlers of the
  route have set them.
\<close>

record request =
  req_query :: "string \<Rightarrow> string option"
  req_params_name :: "string option"
  req_image :: jsval
  req_images :: jsval
  req_imageTags :: jsval

text \<open>
  The collaborators: the three parsers of the registry client library (each returns the
  parsed reference or throws), and the backend's and the registry's operations. An operation
  that writes to the response returns the response it leaves; an operation that calls back
  with an error returns the error value (falsy for none).
\<close>

record env =
  parseRepoAndRef :: "string option \<Rightarrow> exn + rat"
  parseRepoAndTag :: "string option \<Rightarrow> exn + rat"
  parseRepo :: "string option \<Rightarrow> exn + repo"
  pullImage :: "rat \<Rightarrow> response \<Rightarrow> response"
  pushImage :: "jsval \<Rightarrow> rat \<Rightarrow> string \<Rightarrow> response \<Rightarrow> jsval \<times> response"
  tagImage :: "jsval \<Rightarrow> string \<Rightarrow> jsval"
  search :: "string \<Rightarrow> string \<Rightarrow> jsval \<times> jsval"

text \<open>
  A query parameter is a string or absent; it is truthy when it is a non-empty string.
\<close>

definition truthy_param :: "string option \<Rightarrow> bool" where
  "truthy_param v = (case v of None \<Rightarrow> False | Some s \<Rightarrow> s \<noteq> [])"

text \<open>
  \<^verbatim>\<open>s.slice(-n)\<close>: the last \<open>n\<close> characters of \<open>s\<close>.
\<close>

definition slice_last :: "nat \<Rightarrow> string \<Rightarrow> string" where
  "slice_last n s = drop (length s - n) s"

definition res_set_status :: "response \<Rightarrow> nat \<Rightarrow> response" where
  "res_set_status res code = res\<lparr>res_status := Some code\<rparr>"

definition res_header :: "response \<Rightarrow> string \<Rightarrow> string \<Rightarrow> response" where
  "res_header res k v = res\<lparr>res_headers := res_headers res @ [(k, v)]\<rparr>"

definition res_end :: "response \<Rightarrow> response" where
  "res_end res = res\<lparr>res_ended := True\<rparr>"

text \<open>
  \<^verbatim>\<open>res.send(v)\<close>: the JSON text of \<open>v\<close> as the body, with status 200 unless one
  was set.
\<close>

definition res_send :: "response \<Rightarrow> jsval \<Rightarrow> response" where
  "res_send res v =
     res_end (res_write (res\<lparr>res_status := Some (case res_status res of None \<Rightarrow> 200 | Some c \<Rightarrow> c)\<rparr>)
       (case JSON_stringify v of None \<Rightarrow> [] | Some s \<Rightarrow> s))"

definition not_implemented :: "string \<Rightarrow> response \<Rightarrow> outcome" where
  "not_implemented what res =
     \<lparr>out_next = NextError (NotImplementedError what), out_res = res,
      out_calls = [], out_timeout = None\<rparr>"

text \<open>
  \<^verbatim>\<open>
  function imageCreate(req, res, next) {
      if (req.query.fromSrc !== undefined) {
          return next(new errors.NotImplementedError('image create'));
      }
      req.connection.setTimeout(150 * 1000);
      try {
          var rat = drc.parseRepoAndRef(req.query.fromImage);
      } catch (e) {
          next(new errors.DockerError(e, e.toString()));
          return;
      }
      var all = (!req.query.tag
          && rat.tag && rat.tag === 'latest'
          && req.query.fromImage.slice(-':latest'.length) !== ':latest');
      if (all) {
          next(new errors.NotImplementedError('docker pull -a'));
          return;
      }
      if (req.query.tag) {
          if (req.query.tag.substr(0, 7) === 'sha256:') {
              rat.digest = req.query.tag;
              rat.tag = '';
          } else {
              rat.tag = req.query.tag;
          }
      }
      res.status(200);
      res.header('Content-Type', 'application/json');
      req.backend.pullImage({ ..., rat: rat, res: res, ... }, function () {
          req.app.sockets.removeSocket('job', rat.canonicalName);
          res.end();
          next(false);
      });
  }
  \<close>
\<close>

definition imageCreate :: "env \<Rightarrow> request \<Rightarrow> response \<Rightarrow> js_error + outcome" where
  "imageCreate env req res =
     (if req_query req ''fromSrc'' \<noteq> None
      then Inr (not_implemented ''image create'' res)
      else
        (case parseRepoAndRef env (req_query req ''fromImage'') of
           Inl e \<Rightarrow>
             Inr \<lparr>out_next = NextError (DockerError e (exn_toString e)), out_res = res,
                  out_calls = [], out_timeout = Some (150 * 1000)\<rparr>
         | Inr rat0 \<Rightarrow>
             ebind
               (if \<not> truthy_param (req_query req ''tag'') \<and> truthy (rat_tag rat0)
                   \<and> rat_tag rat0 = Str ''latest''
                then (case req_query req ''fromImage'' of
                        None \<Rightarrow> Inl TypeError
                      | Some fromImage \<Rightarrow>
                          Inr (slice_last (length '':latest'') fromImage \<noteq> '':latest''))
                else Inr False)
               (\<lambda>all.
                  if all
                  then Inr \<lparr>out_next = NextError (NotImplementedError ''docker pull -a''),
                            out_res = res, out_calls = [], out_timeout = Some (150 * 1000)\<rparr>
                  else
                    (let rat1 =
                           (case req_query req ''tag'' of
                              None \<Rightarrow> rat0
                            | Some tag \<Rightarrow>
                                if tag = [] then rat0
                                else if take 7 tag = ''sha256:''
                                  then rat0\<lparr>rat_digest := Str tag, rat_tag := Str []\<rparr>
                                  else rat0\<lparr>rat_tag := Str tag\<rparr>);
                         res1 = res_header (res_set_status res 200)
                                  ''Content-Type'' ''application/json''
                     in Inr \<lparr>out_next = NextFalse,
                              out_res = res_end (pullImage env rat1 res1),
                              out_calls = [PullImage rat1,
                                           RemoveSocket ''job'' (rat_canonicalName rat1)],
                              out_timeout = Some (150 * 1000)\<rparr>))))"

text \<open>
  The string a value becomes when it is concatenated to a string.
\<close>

fun js_to_string :: "jsval \<Rightarrow> string" and js_to_strings :: "jsval list \<Rightarrow> string list" where
  "js_to_string Undefined = ''undefined''"
| "js_to_string Null = ''null''"
| "js_to_string (Bool b) = (if b then ''true'' else ''false'')"
| "js_to_string (Num n) = show_int n"
| "js_to_string (Str s) = s"
| "js_to_string (Arr xs) = join '','' (js_to_strings xs)"
| "js_to_string (Obj ps) = ''[object Object]''"
| "js_to_strings [] = []"
| "js_to_strings (x # xs) =
     (if x = Undefined \<or> x = Null then [] else js_to_string x) # js_to_strings xs"

text \<open>
  \<^verbatim>\<open>assert.arrayOfObject(v, ...)\<close> holds of an array whose elements are objects.
\<close>

fun is_object :: "jsval \<Rightarrow> bool" where
  "is_object (Obj _) = True"
| "is_object (Arr _) = True"
| "is_object _ = False"

fun arrayOfObject :: "jsval \<Rightarrow> bool" where
  "arrayOfObject (Arr xs) = list_all is_object xs"
| "arrayOfObject _ = False"

fun elements :: "jsval \<Rightarrow> jsval list" where
  "elements (Arr xs) = xs"
| "elements _ = []"

text \<open>
  The pipeline of \<^verbatim>\<open>imagePush\<close> over \<^verbatim>\<open>req.images\<close>, one image after the other, stopping
  at the first error:
  \<^verbatim>\<open>
  func: function _pushOneImage(img, cb) {
      rat.tag = req.imageTags[idx].tag;
      idx += 1;
      var repoAndTag = rat.canonicalName + ':' + rat.tag;
      req.backend.pushImage({ image: img, rat: rat, repoAndTag: repoAndTag,
          req: req, res: res }, cb);
  }
  \<close>
  The result is the error the pipeline ends with (falsy for none), the response and the
  calls made.
\<close>

fun push_pipeline :: "env \<Rightarrow> rat \<Rightarrow> jsval list \<Rightarrow> jsval list \<Rightarrow> nat \<Rightarrow> response
    \<Rightarrow> backend_call list \<Rightarrow> js_error + jsval \<times> response \<times> backend_call list" where
  "push_pipeline env rat [] imageTags idx res calls = Inr (Undefined, res, calls)"
| "push_pipeline env rat (img # imgs) imageTags idx res calls =
     (if idx < length imageTags then
        ebind (js_get (imageTags ! idx) ''tag'') (\<lambda>tag.
          let rat1 = rat\<lparr>rat_tag := tag\<rparr>;
              repoAndTag = rat_canonicalName rat1 @ '':'' @ js_to_string tag;
              pushed = pushImage env img rat1 repoAndTag res;
              calls1 = calls @ [PushImage img rat1 repoAndTag]
          in if truthy (fst pushed) then Inr (fst pushed, snd pushed, calls1)
             else push_pipeline env rat1 imgs imageTags (idx + 1) (snd pushed) calls1)
      else Inl TypeError)"

text \<open>
  \<^verbatim>\<open>
  var msgPayload = {
      status: format('The push refers to a repository [%s]', rat.canonicalName)
  };
  \<close>
\<close>

definition push_message :: "string \<Rightarrow> jsval" where
  "push_message canonicalName =
     Obj [(''status'', Str (''The push refers to a repository ['' @ canonicalName @ '']''))]"

text \<open>
  \<^verbatim>\<open>
  function imagePush(req, res, next) {
      assert.arrayOfObject(req.images, 'req.images');
      assert.arrayOfObject(req.imageTags, 'req.imageTags');
      try {
          var rat = drc.parseRepoAndTag(req.params.name);
      } catch (e) {
          next(new errors.DockerError(e, e.message));
          return;
      }
      res.status(200);
      res.header('Content-Type', 'application/json');
      var msgPayload = { ... };
      res.write(JSON.stringify(msgPayload) + '\r\n');
      var idx = 0;
      vasync.forEachPipeline({ inputs: req.images, func: _pushOneImage },
          function _vasyncPipelinePushCb(err) {
              if (err) { req.log.error(...); }
              res.end();
              next();
          });
  }
  \<close>
\<close>

definition imagePush :: "env \<Rightarrow> request \<Rightarrow> response \<Rightarrow> js_error + outcome" where
  "imagePush env req res =
     (if arrayOfObject (req_images req) \<and> arrayOfObject (req_imageTags req)
      then
        (case parseRepoAndTag env (req_params_name req) of
           Inl e \<Rightarrow>
             Inr \<lparr>out_next = NextError (DockerError e (exn_message e)), out_res = res,
                  out_calls = [], out_timeout = None\<rparr>
         | Inr rat \<Rightarrow>
             (let res1 = res_header (res_set_status res 200) ''Content-Type'' ''application/json'';
                  res2 = res_write res1
                           (stringify (push_message (rat_canonicalName rat)) @ [CHR 0x0D, CHR 0x0A])
              in ebind (push_pipeline env rat (elements (req_images req))
                          (elements (req_imageTags req)) 0 res2 [])
                   (\<lambda>fin. Inr \<lparr>out_next = Next, out_res = res_end (fst (snd fin)),
                                  out_calls = snd (snd fin), out_timeout = None\<rparr>)))
      else Inl AssertionError)"

text \<open>
  \<^verbatim>\<open>
  function imageChanges(req, res, next) {
      return next(new errors.NotImplementedError('image changes'));
  }
  \<close>
  and likewise \<^verbatim>\<open>imageGet\<close> (\<^verbatim>\<open>'image get'\<close>) and \<^verbatim>\<open>imageLoad\<close>
  (\<^verbatim>\<open>'image load'\<close>).
\<close>

definition imageChanges :: "request \<Rightarrow> response \<Rightarrow> js_error + outcome" where
  "imageChanges req res = Inr (not_implemented ''image changes'' res)"

text \<open>
  \<^verbatim>\<open>
  var repoAndTag = req.query.repo || '';
  if (req.query.tag) {
      repoAndTag += ':' + req.query.tag;
  }
  \<close>
\<close>

definition or_empty :: "string option \<Rightarrow> string" where
  "or_empty v = (case v of None \<Rightarrow> [] | Some s \<Rightarrow> s)"

definition tag_reference :: "request \<Rightarrow> string" where
  "tag_reference req =
     (let repoAndTag = or_empty (req_query req ''repo'')
      in if truthy_param (req_query req ''tag'')
         then repoAndTag @ '':'' @ or_empty (req_query req ''tag'')
         else repoAndTag)"

text \<open>
  \<^verbatim>\<open>
  function imageTag(req, res, next) {
      var repoAndTag = ...;
      try {
          drc.parseRepoAndTag(repoAndTag);
      } catch (e) {
          next(new errors.DockerError(e, e.message));
          return;
      }
      req.backend.tagImage({ img: req.image, name: repoAndTag, req: req },
          function (err, history) {
              if (err) { req.log.error(...); next(err); return; }
              res.status(201);
              res.end();
              next();
          });
  }
  \<close>
\<close>

definition imageTag :: "env \<Rightarrow> request \<Rightarrow> response \<Rightarrow> js_error + outcome" where
  "imageTag env req res =
     (let repoAndTag = tag_reference req
      in case parseRepoAndTag env (Some repoAndTag) of
           Inl e \<Rightarrow>
             Inr \<lparr>out_next = NextError (DockerError e (exn_message e)), out_res = res,
                  out_calls = [], out_timeout = None\<rparr>
         | Inr rat \<Rightarrow>
             (let err = tagImage env (req_image req) repoAndTag
              in if truthy err
                 then Inr \<lparr>out_next = NextErrVal err, out_res = res,
                           out_calls = [TagImage (req_image req) repoAndTag], out_timeout = None\<rparr>
                 else Inr \<lparr>out_next = Next, out_res = res_end (res_set_status res 201),
                           out_calls = [TagImage (req_image req) repoAndTag],
                           out_timeout = None\<rparr>))"

text \<open>
  \<^verbatim>\<open>
  function imageSearch(req, res, next) {
      try {
          var repo = drc.parseRepo(req.query.term);
      } catch (parseErr) {
          return next(new errors.ValidationError(parseErr, parseErr.message));
      }
      var term = repo.index.official ? repo.localName : repo.remoteName;
      var regClient = drc.createClientV1(...);
      regClient.search({term: term}, function (err, body) {
          regClient.close();
          if (err) { next(err); return; }
          res.send(body.results);
          next();
      });
  }
  \<close>
\<close>

definition imageSearch :: "env \<Rightarrow> request \<Rightarrow> response \<Rightarrow> js_error + outcome" where
  "imageSearch env req res =
     (case parseRepo env (req_query req ''term'') of
        Inl parseErr \<Rightarrow>
          Inr \<lparr>out_next = NextError (ValidationError parseErr (exn_message parseErr)),
               out_res = res, out_calls = [], out_timeout = None\<rparr>
      | Inr repo \<Rightarrow>
          (let term = (if repo_official repo then repo_localName repo else repo_remoteName repo);
               found = search env (repo_canonicalName repo) term;
               calls = [RegistrySearch (repo_canonicalName repo) term]
           in if truthy (fst found)
              then Inr \<lparr>out_next = NextErrVal (fst found), out_res = res, out_calls = calls,
                        out_timeout = None\<rparr>
              else ebind (js_get (snd found) ''results'') (\<lambda>results.
                     Inr \<lparr>out_next = Next, out_res = res_send res results, out_calls = calls,
                          out_timeout = None\<rparr>)))"

definition imageGet :: "request \<Rightarrow> response \<Rightarrow> js_error + outcome" where
  "imageGet req res = Inr (not_implemented ''image get'' res)"

definition imageLoad :: "request \<Rightarrow> response \<Rightarrow> js_error + outcome" where
  "imageLoad req res = Inr (not_implemented ''image load'' res)"


text \<open>
  A sequence of progress events written to one response with \<^verbatim>\<open>writeProgress\<close>, one
  call after the other.
\<close>

fun writeProgress_seq :: "response \<Rightarrow> jsval list \<Rightarrow> js_error + response" where
  "writeProgress_seq res [] = Inr res"
| "writeProgress_seq res (p # ps) =
     ebind (writeProgress res p) (\<lambda>written. writeProgress_seq (fst written) ps)"

text \<open>
  The JSON text of a progress event, given by the event alone: the object with the first 12
  characters of the event's identifier (the empty string when it has none), its status,
  and its detail (the empty object when it has none), as \<^verbatim>\<open>JSON.stringify\<close> prints it.
\<close>

definition short_id :: "jsval \<Rightarrow> jsval" where
  "short_id v = (case v of Str s \<Rightarrow> Str (take 12 s) | _ \<Rightarrow> Str [])"

definition progress_object :: "(string \<times> jsval) list \<Rightarrow> jsval" where
  "progress_object ps =
     Obj [(''id'', short_id (field ps ''id'')),
          (''status'', field ps ''status''),
          (''progressDetail'',
             if truthy (field ps ''progressDetail'') then field ps ''progressDetail'' else Obj [])]"

definition event_json :: "jsval \<Rightarrow> string" where
  "event_json p = (case p of Obj ps \<Rightarrow> stringify (progress_object ps) | _ \<Rightarrow> [])"

fun plain_object :: "jsval \<Rightarrow> bool" where
  "plain_object (Obj _) = True"
| "plain_object _ = False"

text \<open>
  The backend's \<^verbatim>\<open>pushImage\<close> only adds to the body of the response it is given.
\<close>

definition appends_only :: "env \<Rightarrow> bool" where
  "appends_only env =
     (\<forall>img rat s res. take (length (res_chunks res))
         (res_chunks (snd (pushImage env img rat s res))) = res_chunks res)"

text \<open>
  A handler's outcome is the not-implemented one: it called \<^verbatim>\<open>next\<close> with a
  \<^verbatim>\<open>NotImplementedError\<close>, whose status is 501, made no call to the backend and left the
  response as it was.
\<close>

definition reports_not_implemented :: "js_error + outcome \<Rightarrow> response \<Rightarrow> bool" where
  "reports_not_implemented r res =
     (case r of
        Inl _ \<Rightarrow> False
      | Inr out \<Rightarrow>
          (case out_next out of
             NextError (NotImplementedError what) \<Rightarrow>
               statusCode (NotImplementedError what) = Some 501
               \<and> out_calls out = [] \<and> out_res out = res
           | _ \<Rightarrow> False))"

text \<open>
  The error a handler constructed and gave to \<^verbatim>\<open>next\<close>, if it did.
\<close>

definition next_error :: "js_error + outcome \<Rightarrow> api_error option" where
  "next_error r =
     (case r of Inr out \<Rightarrow> (case out_next out of NextError e \<Rightarrow> Some e | _ \<Rightarrow> None)
      | Inl _ \<Rightarrow> None)"

subsection \<open>Example collaborators and requests\<close>

definition bad_reference :: exn where
  "bad_reference = Exn ''Error'' ''invalid repository name''"

definition busybox :: rat where
  "busybox = \<lparr>rat_tag = Str ''latest'', rat_digest = Undefined,
     rat_canonicalName = ''docker.io/busybox''\<rparr>"

definition busybox_repo :: repo where
  "busybox_repo = \<lparr>repo_official = True, repo_localName = ''busybox'',
     repo_remoteName = ''library/busybox'', repo_canonicalName = ''docker.io/busybox''\<rparr>"

definition pushed_event :: jsval where
  "pushed_event = Obj [(''id'', Str ''0123456789abcdef''), (''status'', Str ''Pushed'')]"

definition example_env :: env where
  "example_env =
     \<lparr>parseRepoAndRef = (\<lambda>s. if s = Some ''busybox:latest'' then Inr busybox else Inl bad_reference),
      parseRepoAndTag = (\<lambda>s. if s = Some ''busybox'' then Inr busybox else Inl bad_reference),
      parseRepo = (\<lambda>s. if s = Some ''busybox'' then Inr busybox_repo else Inl bad_reference),
      pullImage = (\<lambda>rat res. res),
      pushImage = (\<lambda>img rat s res.
         case writeProgress res pushed_event of
           Inl _ \<Rightarrow> (Null, res)
         | Inr written \<Rightarrow> (Null, fst written)),
      tagImage = (\<lambda>img s. Null),
      search = (\<lambda>name term. (Null, Obj [(''results'', Arr [])]))\<rparr>"

definition request_of :: "(string \<times> string) list \<Rightarrow> string \<Rightarrow> request" where
  "request_of q name =
     \<lparr>req_query = map_of q, req_params_name = Some name, req_image = Obj [],
      req_images = Arr [Obj []], req_imageTags = Arr [Obj [(''tag'', Str ''latest'')]]\<rparr>"

definition bad_request :: request where
  "bad_request = request_of [(''fromImage'', ''Busy Box''), (''repo'', ''Busy Box''),
     (''term'', ''Busy Box'')] ''Busy Box''"

text \<open>
  The chunks of the body a handler leaves.
\<close>

definition written_chunks :: "js_error + outcome \<Rightarrow> string list" where
  "written_chunks r = (case r of Inl _ \<Rightarrow> [] | Inr out \<Rightarrow> res_chunks (out_res out))"

section \<open>Resource resolver\<close>

text \<open>
  The volume endpoints, the resolver and the datastore they use are not among the sources;
  only the regression test for DOCKER-880 is, which drives them through the command line.
  This section is written from the specification (its data model and its resolver
  contract), not from code.
\<close>

text \<open>
  Modelled from the spec: the kinds and lifecycle states of a named resource (the datastore's
  schema is missing). ``NamedResource (image, tag, or volume) -- identifier; name; kind;
  state in {creating, ready, deleting, failed}; creation timestamp; account/namespace
  scope.''
\<close>

datatype kind = Image | Tag | Volume
























section \<open>Properties of the progress stream\<close>

lemma field_set_prop: "field (set_prop ps k v) k' = (if k' = k then v else field ps k')"
  by (induction ps) (auto simp: field_def)

text \<open>
  Claim C4, as the code has it: for the events written with \<^verbatim>\<open>writeProgress\<close>. A
  progress event written with \<^verbatim>\<open>writeProgress\<close>, whose identifier is a string or
  absent, whose status is a text and whose detail is an object or absent, is written as one
  JSON object with the fields \<^verbatim>\<open>id\<close> (the first 12 characters of the identifier, the empty
  string when it is absent), \<^verbatim>\<open>status\<close> (the text) and \<^verbatim>\<open>progressDetail\<close> (the detail
  object, \<^verbatim>\<open>{}\<close> when it is absent): the last field is never left out.
\<close>

theorem writeProgress_event:
  assumes "field ps ''id'' = Undefined \<or> field ps ''id'' = Str i"
    and "field ps ''status'' = Str st"
    and "field ps ''progressDetail'' = Undefined \<or> field ps ''progressDetail'' = Obj d"
  shows "map_sum id fst (writeProgress res (Obj ps)) =
         Inr (res_write res (progress_json
               (if field ps ''id'' = Undefined then [] else take 12 i) st
               (if field ps ''progressDetail'' = Undefined then ''{}'' else stringify (Obj d))))"
  using assms
  by (auto simp: writeProgress_def formatProgress_def ebind_def write_json_def JSON_stringify_def
      progress_json_def field_set_prop quote_def quote_char_def)

theorem writeProgress_event_witness:
  \<open>field [(''id'', Str ''0123456789abcdef''), (''status'', Str ''Pulling'')] ''id''
     = Str ''0123456789abcdef''
   \<and> field [(''id'', Str ''0123456789abcdef''), (''status'', Str ''Pulling'')] ''status''
     = Str ''Pulling''
   \<and> field [(''id'', Str ''0123456789abcdef''), (''status'', Str ''Pulling'')] ''progressDetail''
     = Undefined
   \<and> map_sum id fst (writeProgress empty_response
         (Obj [(''id'', Str ''0123456789abcdef''), (''status'', Str ''Pulling'')]))
     = Inr (res_write empty_response
         ''{"id":"0123456789ab","status":"Pulling","progressDetail":{}}'')\<close>
  using writeProgress_event [of "[(''id'', Str ''0123456789abcdef''), (''status'', Str ''Pulling'')]"
      "''0123456789abcdef''" "''Pulling''" "[]" empty_response]
  by (simp add: field_def progress_json_def quote_def quote_char_def)

text \<open>
  Claim C4 as stated fails for the events written with \<^verbatim>\<open>writeStatus\<close>, which does not
  fill in a detail: without one the object it writes has no \<^verbatim>\<open>progressDetail\<close>.
\<close>

theorem writeStatus_counterexample:
  \<open>map_sum id fst (writeStatus empty_response
       (Obj [(''id'', Str ''0123456789abcdef''), (''status'', Str ''Pulling'')]))
   = Inr (res_write empty_response ''{"id":"0123456789ab","status":"Pulling"}'')\<close>
  by (simp add: writeStatus_def formatProgress_def ebind_def write_json_def JSON_stringify_def
      field_def quote_def quote_char_def)

section \<open>Properties of waiting for a job\<close>

lemma js_get_member:
  "js_get v k = (if v = Undefined \<or> v = Null then Inl TypeError else Inr (member v k))"
  by (cases v) simp_all

lemma truthy_js_get: "truthy v \<Longrightarrow> js_get v k = Inr (member v k)"
  by (cases v) simp_all

text \<open>One round of \<^verbatim>\<open>poll\<close>, with the two terminal states taken together.\<close>

lemma poll_unfold:
  "poll c a e ts =
     (if truthy (fst (c a)) then
        (if e + 1 \<ge> 5
         then ((Some (ErrVal (fst (c a))), Undefined),
               \<lparr>attempts = a + 1, errors = e + 1, timers = ts\<rparr>)
         else poll c (a + 1) (e + 1) (ts @ [timeout]))
      else if terminal (snd (c a))
        then ((None, snd (c a)), \<lparr>attempts = a + 1, errors = e, timers = ts\<rparr>)
      else if a + 1 > limit
        then ((Some (Error (Str ''polling for job timed out'')), snd (c a)),
              \<lparr>attempts = a + 1, errors = e, timers = ts\<rparr>)
      else poll c (a + 1) e (ts @ [timeout]))"
  by (subst poll.simps) (simp add: Let_def terminal_def)

lemma poll_error_continues:
  assumes "fetch_failed c a" "e + 1 < 5"
  shows "poll c a e ts = poll c (a + 1) (e + 1) (ts @ [timeout])"
  using assms by (subst poll_unfold) (simp add: fetch_failed_def)

lemma poll_running_continues:
  assumes "\<not> fetch_failed c a" "\<not> terminal (snd (c a))" "a + 1 \<le> limit"
  shows "poll c a e ts = poll c (a + 1) e (ts @ [timeout])"
  using assms by (subst poll_unfold) (simp add: fetch_failed_def)

lemma poll_continues:
  assumes "\<not> fetched_terminal c a" "e + (if fetch_failed c a then 1 else 0) < 5" "a + 1 \<le> limit"
  shows "poll c a e ts = poll c (a + 1) (e + (if fetch_failed c a then 1 else 0)) (ts @ [timeout])"
  using assms poll_error_continues[of c a e ts] poll_running_continues[of c a e ts]
  by (auto simp: fetched_terminal_def)

lemma fetch_errors_Suc:
  "a \<le> n \<Longrightarrow> fetch_errors c a (Suc n) = fetch_errors c a n + (if fetch_failed c n then 1 else 0)"
  by (simp add: fetch_errors_def)

text \<open>
  As long as no terminal job is fetched, fewer than five errors have been counted and the
  attempt limit is not passed, every answer sets one timer and polls again.
\<close>

lemma poll_skip:
  assumes "a \<le> n" "n \<le> limit"
    and "\<forall>i. a \<le> i \<and> i < n \<longrightarrow> \<not> fetched_terminal c i"
    and "e + fetch_errors c a n < 5"
  shows "poll c a e ts = poll c n (e + fetch_errors c a n) (ts @ replicate (n - a) timeout)"
  using assms
proof (induction n rule: dec_induct)
  case base
  then show ?case by (simp add: fetch_errors_def)
next
  case (step m)
  have le: "fetch_errors c a m \<le> fetch_errors c a (Suc m)"
    using step.hyps by (simp add: fetch_errors_Suc)
  have "poll c a e ts = poll c m (e + fetch_errors c a m) (ts @ replicate (m - a) timeout)"
    using step le by simp
  also have "\<dots> = poll c (m + 1) (e + fetch_errors c a m + (if fetch_failed c m then 1 else 0))
      ((ts @ replicate (m - a) timeout) @ [timeout])"
    using step.prems step.hyps by (intro poll_continues) (auto simp: fetch_errors_Suc)
  also have "\<dots> = poll c (Suc m) (e + fetch_errors c a (Suc m)) (ts @ replicate (Suc m - a) timeout)"
    using step.hyps by (simp add: fetch_errors_Suc Suc_diff_le replicate_append_same)
  finally show ?case .
qed

lemma pollJob_skip:
  assumes "n \<le> limit" "none_terminal c n" "fetch_errors c 0 n < 5"
  shows "pollJob c = poll c n (fetch_errors c 0 n) (replicate n timeout)"
  using poll_skip[of 0 n c 0 "[]"] assms
  by (simp add: pollJob_def none_terminal_def list_all_iff)

lemma pollJob_fifth_error:
  assumes "n \<le> limit" "none_terminal c n" "fetch_errors c 0 n = 4" "fetch_failed c n"
  shows "pollJob c = ((Some (ErrVal (fst (c n))), Undefined),
           \<lparr>attempts = n + 1, errors = 5, timers = replicate n timeout\<rparr>)"
  using assms by (simp add: pollJob_skip) (simp add: poll_unfold fetch_failed_def)

lemma pollJob_terminal:
  assumes "n \<le> limit" "none_terminal c n" "fetch_errors c 0 n \<le> 4" "fetched_terminal c n"
  shows "pollJob c = ((None, snd (c n)),
           \<lparr>attempts = n + 1, errors = fetch_errors c 0 n, timers = replicate n timeout\<rparr>)"
  using assms by (simp add: pollJob_skip) (simp add: poll_unfold fetch_failed_def fetched_terminal_def)

lemma pollJob_never_terminal:
  assumes "\<forall>i\<le>limit. \<not> fetch_failed c i \<and> \<not> terminal (snd (c i))"
  shows "pollJob c = ((Some (Error (Str ''polling for job timed out'')), snd (c limit)),
           \<lparr>attempts = limit + 1, errors = 0, timers = replicate limit timeout\<rparr>)"
proof -
  have nt: "none_terminal c limit"
    using assms by (simp add: none_terminal_def list_all_iff fetched_terminal_def)
  have fe: "fetch_errors c 0 limit = 0"
    using assms by (simp add: fetch_errors_def filter_empty_conv)
  have "pollJob c = poll c limit 0 (replicate limit timeout)"
    using pollJob_skip[of limit c] nt fe by simp
  also have "\<dots> = ((Some (Error (Str ''polling for job timed out'')), snd (c limit)),
           \<lparr>attempts = limit + 1, errors = 0, timers = replicate limit timeout\<rparr>)"
    using assms by (subst poll_unfold) (simp add: fetch_failed_def)
  finally show ?thesis .
qed

text \<open>
  What \<^verbatim>\<open>pollJob\<close> hands over without an error is a job in a terminal state, whatever the
  client answers.
\<close>

lemma pollJob_hands_terminal:
  assumes "fst (pollJob c) = (None, job)"
  shows "terminal job"
proof -
  have "fst (poll c a e ts) = (None, job) \<Longrightarrow> terminal job" for a e ts
  proof (induction c a e ts rule: poll.induct)
    case (1 client attempts0 errors0 timers0)
    show ?case
      using "1.prems" "1.IH"
      by (subst (asm) poll_unfold) (auto simp: terminal_def Let_def split: if_splits)
  qed
  then show ?thesis using assms by (simp add: pollJob_def)
qed

text \<open>The callback of \<^verbatim>\<open>waitForJob\<close> on a job with a last step result.\<close>

lemma polled_last_result:
  assumes "truthy job" "member job ''chain_results'' = Arr rs" "rs \<noteq> []"
    and "last rs \<noteq> Undefined" "last rs \<noteq> Null"
  shows "polled None job =
     (let error = member (last rs) ''error'' in
      if truthy error
      then Inr (Some (Error (if truthy (member error ''message'') then member error ''message''
                             else Str (stringify error))))
      else Inr None)"
  using assms
  by (auto simp: polled_def ebind_def truthy_js_get js_get_member Let_def json_or_undefined_def
      JSON_stringify_def)

lemma waitForJob_fetches_terminal:
  assumes "fetches_terminal c n job"
  shows "waitForJob c (Str u) = (polled None job,
           \<lparr>attempts = n + 1, errors = fetch_errors c 0 n, timers = replicate n timeout\<rparr>)"
  using assms pollJob_terminal[of n c]
  by (simp add: fetches_terminal_def waitForJob_def polled_def)


text \<open>
  Claim C1, as the code has it. \<^verbatim>\<open>pollJob\<close> counts the fetch errors of the whole poll
  in \<^verbatim>\<open>errors\<close> and never resets the count. Let call \<open>n\<close> be within the attempt limit, with
  no terminal job fetched before it. If four earlier calls answered with an error and call
  \<open>n\<close> does too, \<^verbatim>\<open>waitForJob\<close> fails at once with that fifth error, after \<open>n + 1\<close>
  calls. If at most four earlier calls answered with an error and call \<open>n\<close> fetches a
  terminal job, the errors were swallowed and the outcome is the one of that job.
\<close>

theorem waitForJob_fetch_errors:
  assumes "n \<le> 720" and "none_terminal c n"
  shows "(fetch_errors c 0 n = 4 \<and> fetch_failed c n \<longrightarrow>
            waitForJob c (Str u) = (Inr (Some (ErrVal (fst (c n)))),
              \<lparr>attempts = n + 1, errors = 5, timers = replicate n 1000\<rparr>))
       \<and> (fetch_errors c 0 n \<le> 4 \<and> fetched_terminal c n \<longrightarrow>
            waitForJob c (Str u) = (polled None (snd (c n)),
              \<lparr>attempts = n + 1, errors = fetch_errors c 0 n, timers = replicate n 1000\<rparr>))"
  using assms pollJob_fifth_error[of n c] pollJob_terminal[of n c]
  by (auto simp: waitForJob_def limit_def timeout_def polled_def)

theorem waitForJob_fetch_errors_witness:
  "(4::nat) \<le> 720 \<and> none_terminal (flaky_client 5 done_job) 4
   \<and> fetch_errors (flaky_client 5 done_job) 0 4 = 4 \<and> fetch_failed (flaky_client 5 done_job) 4
   \<and> waitForJob (flaky_client 5 done_job) (Str ''job'') = (Inr (Some (ErrVal fetch_error)),
        \<lparr>attempts = 5, errors = 5, timers = [1000, 1000, 1000, 1000]\<rparr>)
   \<and> none_terminal (flaky_client 4 done_job) 4
   \<and> fetch_errors (flaky_client 4 done_job) 0 4 \<le> 4 \<and> fetched_terminal (flaky_client 4 done_job) 4
   \<and> waitForJob (flaky_client 4 done_job) (Str ''job'') = (Inr None,
        \<lparr>attempts = 5, errors = 4, timers = [1000, 1000, 1000, 1000]\<rparr>)"
proof -
  have n: "(4::nat) \<le> 720" by simp
  have a1: "none_terminal (flaky_client 5 done_job) 4" by code_simp
  have a2: "fetch_errors (flaky_client 5 done_job) 0 4 = 4" by code_simp
  have a3: "fetch_failed (flaky_client 5 done_job) 4" by code_simp
  have b1: "none_terminal (flaky_client 4 done_job) 4" by code_simp
  have b2: "fetch_errors (flaky_client 4 done_job) 0 4 = 4" by code_simp
  have b3: "fetched_terminal (flaky_client 4 done_job) 4" by code_simp
  have b4: "polled None (snd (flaky_client 4 done_job 4)) = Inr None" by code_simp
  have r4: "replicate 4 (1000::nat) = [1000, 1000, 1000, 1000]" by (simp add: numeral_eq_Suc)
  have a: "waitForJob (flaky_client 5 done_job) (Str ''job'') = (Inr (Some (ErrVal fetch_error)),
        \<lparr>attempts = 5, errors = 5, timers = [1000, 1000, 1000, 1000]\<rparr>)"
    using waitForJob_fetch_errors [OF n a1, of "''job''"] a2 a3 r4
    by (simp add: flaky_client_def)
  have b: "waitForJob (flaky_client 4 done_job) (Str ''job'') = (Inr None,
        \<lparr>attempts = 5, errors = 4, timers = [1000, 1000, 1000, 1000]\<rparr>)"
    using waitForJob_fetch_errors [OF n b1, of "''job''"] b2 b3 b4 r4
    by simp
  show ?thesis using n a1 a2 a3 a b1 b2 b3 b by simp
qed

text \<open>
  Claim C1 as stated fails: after five fetch errors in a row \<^verbatim>\<open>waitForJob\<close> has already
  failed with the fifth one, although the sixth call would have fetched a job that succeeded.
\<close>

theorem five_fetch_errors_counterexample:
  "waitForJob (flaky_client 5 done_job) (Str ''job'') = (Inr (Some (ErrVal fetch_error)),
     \<lparr>attempts = 5, errors = 5, timers = [1000, 1000, 1000, 1000]\<rparr>)
   \<and> snd (flaky_client 5 done_job 5) = done_job \<and> terminal done_job
   \<and> polled None done_job = Inr None"
  by code_simp

text \<open>
  Claim C6, as the code has it. When every call answers without an error and with a job that
  is not in a terminal state, \<^verbatim>\<open>waitForJob\<close> fails with the time-out error on call 721, the
  first at which \<^verbatim>\<open>attempts > limit\<close> holds; between the calls it has set 720 timers of
  1000 milliseconds each.
\<close>

theorem waitForJob_times_out:
  assumes "\<forall>i\<le>720. \<not> fetch_failed c i \<and> \<not> terminal (snd (c i))"
  shows "waitForJob c (Str u) = (Inr (Some (Error (Str ''polling for job timed out''))),
           \<lparr>attempts = 721, errors = 0, timers = replicate 720 1000\<rparr>)"
  using pollJob_never_terminal[of c] assms
  by (simp add: waitForJob_def limit_def timeout_def polled_def)

lemma running_client_never_terminal:
  "\<not> fetch_failed running_client i \<and> \<not> terminal (snd (running_client i))"
  by (simp add: running_client_def fetch_failed_def terminal_def execution_is_def running_job_def
      field_def)

theorem waitForJob_times_out_witness:
  "waitForJob running_client (Str ''job'') = (Inr (Some (Error (Str ''polling for job timed out''))),
           \<lparr>attempts = 721, errors = 0, timers = replicate 720 1000\<rparr>)"
  using waitForJob_times_out [of running_client "''job''"] running_client_never_terminal
  by simp

text \<open>
  Claim C6 as stated fails: a job that stays running is fetched 721 times, not at most 720.
\<close>

theorem attempts_counterexample:
  "attempts (snd (waitForJob running_client (Str ''job''))) = 721
   \<and> \<not> attempts (snd (waitForJob running_client (Str ''job''))) \<le> 720
   \<and> length (timers (snd (waitForJob running_client (Str ''job'')))) = 720"
  using pollJob_never_terminal [of running_client] running_client_never_terminal
  by (simp add: waitForJob_def limit_def)

text \<open>
  Claim C5, as the code has it. When the job that \<^verbatim>\<open>pollJob\<close> fetches is in state
  \<^verbatim>\<open>failed\<close> and the last entry of its step results carries an error (a truthy
  \<^verbatim>\<open>error\<close>), \<^verbatim>\<open>waitForJob\<close> fails with a new error whose message is the \<^verbatim>\<open>message\<close>
  of that entry's error when it is truthy, and the JSON text of the error otherwise.
\<close>

theorem waitForJob_failed_job:
  assumes "fetches_terminal c n job" and "execution_is job ''failed''"
    and "member job ''chain_results'' = Arr rs" and "rs \<noteq> []"
    and "truthy (member (last rs) ''error'')"
  shows "fst (waitForJob c (Str u)) =
     Inr (Some (Error (if truthy (member (member (last rs) ''error'') ''message'')
                       then member (member (last rs) ''error'') ''message''
                       else Str (stringify (member (last rs) ''error'')))))"
proof -
  have "last rs \<noteq> Undefined" "last rs \<noteq> Null" using assms(5) by auto
  then show ?thesis
    using assms polled_last_result[of job rs] waitForJob_fetches_terminal[of c n job u]
    by (simp add: execution_is_def Let_def)
qed

theorem waitForJob_failed_job_witness:
  "fetches_terminal (flaky_client 0 failed_job) 0 failed_job
   \<and> execution_is failed_job ''failed''
   \<and> member failed_job ''chain_results'' =
       Arr [Obj [(''result'', Str ''OK''), (''error'', Str [])],
            Obj [(''result'', Str []),
                 (''error'', Obj [(''name'', Str ''Error''), (''message'', Str ''no server'')])]]
   \<and> fst (waitForJob (flaky_client 0 failed_job) (Str ''job'')) =
       Inr (Some (Error (Str ''no server'')))"
proof -
  have 1: "fetches_terminal (flaky_client 0 failed_job) 0 failed_job" by code_simp
  have 2: "execution_is failed_job ''failed''" by code_simp
  have 3: "member failed_job ''chain_results'' =
       Arr [Obj [(''result'', Str ''OK''), (''error'', Str [])],
            Obj [(''result'', Str []),
                 (''error'', Obj [(''name'', Str ''Error''), (''message'', Str ''no server'')])]]"
    by (simp add: failed_job_def field_def)
  have "fst (waitForJob (flaky_client 0 failed_job) (Str ''job'')) =
       Inr (Some (Error (Str ''no server'')))"
    using waitForJob_failed_job [OF 1 2 3, of "''job''"] by (simp add: field_def)
  then show ?thesis using 1 2 3 by simp
qed

text \<open>
  Claim C5 as stated fails: a job in state \<^verbatim>\<open>failed\<close> whose last step result has an empty
  error is reported as a success.
\<close>

theorem failed_job_counterexample:
  "execution_is failed_job_without_error ''failed''
   \<and> fetches_terminal (flaky_client 0 failed_job_without_error) 0 failed_job_without_error
   \<and> fst (waitForJob (flaky_client 0 failed_job_without_error) (Str ''job'')) = Inr None"
  by code_simp

text \<open>
  Claim C10, as the code has it. For a job fetched in a terminal state whose step results end
  with an object, the outcome of \<^verbatim>\<open>waitForJob\<close> depends on that last entry only: success
  when its \<^verbatim>\<open>error\<close> is absent or falsy, and otherwise a failure carrying the error's
  message (or the error's JSON text). The execution state does not enter.
\<close>

theorem waitForJob_last_result:
  assumes "fetches_terminal c n job"
    and "member job ''chain_results'' = Arr rs" and "rs \<noteq> []" and "last rs = Obj r"
  shows "fst (waitForJob c (Str u)) =
     (if truthy (field r ''error'')
      then Inr (Some (Error (if truthy (member (field r ''error'') ''message'')
                             then member (field r ''error'') ''message''
                             else Str (stringify (field r ''error'')))))
      else Inr None)"
  using assms polled_last_result[of job rs] waitForJob_fetches_terminal[of c n job u]
  by (auto simp: fetches_terminal_def fetched_terminal_def terminal_def execution_is_def Let_def)

theorem waitForJob_last_result_witness:
  \<open>fetches_terminal (flaky_client 2 odd_job) 2 odd_job
   \<and> member odd_job ''chain_results'' =
       Arr [Obj [(''result'', Str ''OK''), (''error'', Str [])],
            Obj [(''result'', Str []), (''error'', Str ''task timeout'')]]
   \<and> fst (waitForJob (flaky_client 2 odd_job) (Str ''job'')) =
       Inr (Some (Error (Str ''"task timeout"'')))\<close>
proof -
  have 1: "fetches_terminal (flaky_client 2 odd_job) 2 odd_job" by code_simp
  have 3: "member odd_job ''chain_results'' =
       Arr [Obj [(''result'', Str ''OK''), (''error'', Str [])],
            Obj [(''result'', Str []), (''error'', Str ''task timeout'')]]"
    by (simp add: odd_job_def field_def)
  have \<open>fst (waitForJob (flaky_client 2 odd_job) (Str ''job'')) =
       Inr (Some (Error (Str ''"task timeout"'')))\<close>
    using waitForJob_last_result [OF 1 3, of _ "''job''"]
    by (simp add: field_def quote_def quote_char_def)
  then show ?thesis using 1 3 by simp
qed

text \<open>
  Claim C10 as stated fails: the last step result has an \<^verbatim>\<open>error\<close> field, holding the
  empty string, and \<^verbatim>\<open>waitForJob\<close> reports success.
\<close>

theorem empty_error_field_counterexample:
  "fetches_terminal (flaky_client 0 done_job) 0 done_job
   \<and> member done_job ''chain_results'' = Arr [Obj [(''result'', Str ''OK''), (''error'', Str [])]]
   \<and> map_of [(''result'', Str ''OK''), (''error'', Str [])] ''error'' = Some (Str [])
   \<and> fst (waitForJob (flaky_client 0 done_job) (Str ''job'')) = Inr None"
  by code_simp


section \<open>Properties of the raw frames\<close>

lemma length_utf8_fit: "length (utf8_fit s room) \<le> room"
  by (induction s room rule: utf8_fit.induct) auto

lemma header_update:
  assumes "8 \<le> length buf"
  shows "buf[0 := a, 1 := b, 2 := c, 3 := d, 4 := e, 4 + 1 := f, 4 + 2 := g, 4 + 3 := h]
         = [a, b, c, d, e, f, g, h] @ drop 8 buf"
    (is "?upd = ?hdr @ drop 8 buf")
proof (rule nth_equalityI)
  show "length ?upd = length (?hdr @ drop 8 buf)"
    using assms by simp
next
  fix k
  assume "k < length ?upd"
  then have k: "k < length buf" by simp
  have "k \<in> {0, 1, 2, 3, 4, 5, 6, 7} \<or> 8 \<le> k" by auto
  then show "?upd ! k = (?hdr @ drop 8 buf) ! k"
  proof
    assume "k \<in> {0, 1, 2, 3, 4, 5, 6, 7}"
    then show ?thesis using assms k by (auto simp: nth_list_update)
  next
    assume "8 \<le> k"
    then show ?thesis using k assms by (simp add: nth_append nth_list_update)
  qed
qed

lemma buffer_write_after:
  assumes "length h = off"
  shows "buffer_write (h @ t) s off
         = h @ utf8_fit s (length t) @ drop (length (utf8_fit s (length t))) t"
  using assms by (simp add: buffer_write_def Let_def)

text \<open>
  The frame in general: the header, then the characters of the decoded payload that fit,
  then what the memory held.
\<close>

lemma raw_frame:
  assumes "length data < 4294967296"
  shows "writeToDockerRawStream mem ty stream data =
     Inr (stream @ [[of_nat (STREAM_TYPES ty), 0, 0, 0] @ uint32be (length data)
          @ utf8_fit (toString data) (length data)
          @ map mem [8 + length (utf8_fit (toString data) (length data)) ..< 8 + length data]])"
proof -
  let ?n = "length data"
  let ?buf = "new_Buffer mem (8 + ?n)"
  let ?w = "utf8_fit (toString data) ?n"
  have len: "length ?buf = 8 + ?n" by (simp add: new_Buffer_def)
  have st: "STREAM_TYPES ty \<le> 255" by (cases ty) simp_all
  have hdr: "?buf[0 := of_nat (STREAM_TYPES ty), 1 := 0, 2 := 0, 3 := 0,
                  4 := uint32be ?n ! 0, 4 + 1 := uint32be ?n ! 1,
                  4 + 2 := uint32be ?n ! 2, 4 + 3 := uint32be ?n ! 3]
             = ([of_nat (STREAM_TYPES ty), 0, 0, 0] @ uint32be ?n) @ drop 8 ?buf"
    using header_update[of ?buf] len by (simp add: uint32be_def)
  have dr: "drop (8 + length ?w) ?buf = map mem [8 + length ?w ..< 8 + ?n]"
    by (simp add: new_Buffer_def drop_map)
  have l8: "length ([of_nat (STREAM_TYPES ty), 0, 0, 0] @ uint32be ?n :: byte list) = 8"
    by (simp add: uint32be_def)
  have bw: "buffer_write (([of_nat (STREAM_TYPES ty), 0, 0, 0] @ uint32be ?n) @ drop 8 ?buf)
              (toString data) 8
            = ([of_nat (STREAM_TYPES ty), 0, 0, 0] @ uint32be ?n) @ ?w @ drop (8 + length ?w) ?buf"
    using buffer_write_after[OF l8, of "drop 8 ?buf" "toString data"] len
    by (simp add: add.commute del: append.simps)
  have fr: "buffer_write (?buf[0 := of_nat (STREAM_TYPES ty), 1 := 0, 2 := 0, 3 := 0,
                  4 := uint32be ?n ! 0, 4 + 1 := uint32be ?n ! 1,
                  4 + 2 := uint32be ?n ! 2, 4 + 3 := uint32be ?n ! 3]) (toString data) 8
            = ([of_nat (STREAM_TYPES ty), 0, 0, 0] @ uint32be ?n) @ ?w
              @ map mem [8 + length ?w ..< 8 + ?n]"
    by (simp only: hdr bw dr)
  show ?thesis
    using assms st len fr
    by (simp add: writeToDockerRawStream_def writeUInt8_def writeUInt32BE_def ebind_def Let_def)
qed


lemma utf8_fit_ascii:
  assumes "ascii data" "length data \<le> room"
  shows "utf8_fit (toString data) room = data"
  using assms
proof (induction data arbitrary: room)
  case Nil
  then show ?case by simp
next
  case (Cons b bs)
  then obtain r where r: "room = Suc r" by (cases room) auto
  have b: "unat b < 128" and bs: "ascii bs" using Cons.prems(1) by (simp_all add: ascii_def)
  have ch: "utf8_char (unat b) = [b]" using b by (simp add: utf8_char_def)
  show ?case
    using Cons.IH[OF bs, of r] Cons.prems(2) b r by (simp add: ch Let_def)
qed

text \<open>For a payload of ASCII characters the frame is the header and the payload.\<close>

lemma raw_frame_ascii:
  assumes "ascii data" "length data < 4294967296"
  shows "writeToDockerRawStream mem ty stream data =
     Inr (stream @ [[of_nat (STREAM_TYPES ty), 0, 0, 0] @ uint32be (length data) @ data])"
  using raw_frame[OF assms(2), of mem ty stream] utf8_fit_ascii[OF assms(1), of "length data"]
  by simp

lemma toString_255: "toString [255] = [65533]"
  by simp

text \<open>
  Claim C3 at the payload of the single byte \<^verbatim>\<open>0xff\<close>, on channel \<^verbatim>\<open>stdout\<close>: the
  frame is the header for a payload of length 1, followed not by the payload byte but by the
  byte the memory held. The byte decodes to U+FFFD, whose three UTF-8 bytes do not fit into
  the one byte left, so \<^verbatim>\<open>message.write\<close> writes nothing.
\<close>

theorem raw_frame_invalid_utf8: "writeToDockerRawStream mem Stdout [] [255] = Inr [[1, 0, 0, 0, 0, 0, 0, 1, mem 8]]"
  using raw_frame[of "[255]" mem Stdout "[]"]
  by (simp add: uint32be_def utf8_char_def)


section \<open>Properties of the image endpoints\<close>

lemmas handler_defs = res_header_def res_set_status_def res_write_def res_end_def
  empty_response_def ebind_def not_implemented_def

lemmas example_defs = example_env_def request_of_def bad_request_def busybox_def
  busybox_repo_def bad_reference_def pushed_event_def

lemmas json_defs = writeProgress_def formatProgress_def write_json_def JSON_stringify_def
  quote_def quote_char_def field_def push_message_def

text \<open>
  Claim C7 as stated fails on a push: the opening message of \<^verbatim>\<open>imagePush\<close> is written
  with a carriage return and a line feed after it, so the body is not the plain
  concatenation of the JSON objects.
\<close>

theorem push_body_counterexample:
  \<open>written_chunks (imagePush example_env (request_of [] ''busybox'') empty_response) =
     [''{"status":"The push refers to a repository [docker.io/busybox]"}'' @ [CHR 0x0D, CHR 0x0A],
      ''{"id":"0123456789ab","status":"Pushed","progressDetail":{}}'']
   \<and> concat (written_chunks (imagePush example_env (request_of [] ''busybox'') empty_response)) \<noteq>
      ''{"status":"The push refers to a repository [docker.io/busybox]"}''
      @ ''{"id":"0123456789ab","status":"Pushed","progressDetail":{}}''\<close>
  by (simp add: written_chunks_def imagePush_def handler_defs example_defs json_defs)

text \<open>
  Claim C8 as stated fails on \<^verbatim>\<open>imageCreate\<close>: a reference that does not parse makes it
  fail with a \<^verbatim>\<open>DockerError\<close>, not a \<^verbatim>\<open>ValidationError\<close>.
\<close>

theorem create_error_counterexample:
  "next_error (imageCreate example_env bad_request empty_response) =
     Some (DockerError bad_reference ''Error: invalid repository name'')
   \<and> \<not> is_ValidationError (DockerError bad_reference ''Error: invalid repository name'')"
  by (simp add: next_error_def imageCreate_def handler_defs example_defs exn_toString_def)

text \<open>
  Claim C9. Image create from a source archive (the query has \<^verbatim>\<open>fromSrc\<close>), image
  changes, image get and image load each hand a \<^verbatim>\<open>NotImplementedError\<close> (status 501) to
  \<^verbatim>\<open>next\<close>, call nothing of the backend and leave the response untouched.
\<close>

theorem unsupported_verbs:
  "(req_query req ''fromSrc'' \<noteq> None \<longrightarrow>
      reports_not_implemented (imageCreate env req res) res)
   \<and> reports_not_implemented (imageChanges req res) res
   \<and> reports_not_implemented (imageGet req res) res
   \<and> reports_not_implemented (imageLoad req res) res"
  by (simp add: reports_not_implemented_def imageCreate_def imageChanges_def imageGet_def
      imageLoad_def not_implemented_def)

theorem unsupported_verbs_witness:
  "req_query (request_of [(''fromSrc'', ''-'')] ''busybox'') ''fromSrc'' = Some ''-''
   \<and> reports_not_implemented
        (imageCreate example_env (request_of [(''fromSrc'', ''-'')] ''busybox'') empty_response)
        empty_response
   \<and> reports_not_implemented (imageChanges (request_of [] ''busybox'') empty_response) empty_response
   \<and> reports_not_implemented (imageGet (request_of [] ''busybox'') empty_response) empty_response
   \<and> reports_not_implemented (imageLoad (request_of [] ''busybox'') empty_response) empty_response"
  using unsupported_verbs [of "request_of [(''fromSrc'', ''-'')] ''busybox''" example_env empty_response]
    unsupported_verbs [of "request_of [] ''busybox''" example_env empty_response]
  by (simp add: request_of_def)

text \<open>
  Claim C8, as the code has it. When the reference of a request does not parse, the
  endpoint fails before it calls the backend or writes to the response, with an error that
  wraps the parser's exception: \<^verbatim>\<open>imageSearch\<close> with a \<^verbatim>\<open>ValidationError\<close>, and
  \<^verbatim>\<open>imageCreate\<close>, \<^verbatim>\<open>imagePush\<close> and \<^verbatim>\<open>imageTag\<close> with a \<^verbatim>\<open>DockerError\<close>.
\<close>

theorem malformed_reference:
  "(req_query req ''fromSrc'' = None \<and> parseRepoAndRef env (req_query req ''fromImage'') = Inl e
      \<longrightarrow> imageCreate env req res =
            Inr \<lparr>out_next = NextError (DockerError e (exn_toString e)), out_res = res,
                 out_calls = [], out_timeout = Some 150000\<rparr>)
   \<and> (arrayOfObject (req_images req) \<and> arrayOfObject (req_imageTags req)
        \<and> parseRepoAndTag env (req_params_name req) = Inl e
      \<longrightarrow> imagePush env req res =
            Inr \<lparr>out_next = NextError (DockerError e (exn_message e)), out_res = res,
                 out_calls = [], out_timeout = None\<rparr>)
   \<and> (parseRepoAndTag env (Some (tag_reference req)) = Inl e
      \<longrightarrow> imageTag env req res =
            Inr \<lparr>out_next = NextError (DockerError e (exn_message e)), out_res = res,
                 out_calls = [], out_timeout = None\<rparr>)
   \<and> (parseRepo env (req_query req ''term'') = Inl e
      \<longrightarrow> imageSearch env req res =
            Inr \<lparr>out_next = NextError (ValidationError e (exn_message e)), out_res = res,
                 out_calls = [], out_timeout = None\<rparr>)"
  by (simp add: imageCreate_def imagePush_def imageTag_def imageSearch_def)

theorem malformed_reference_witness:
  "next_error (imageCreate example_env bad_request empty_response) =
     Some (DockerError bad_reference ''Error: invalid repository name'')
   \<and> next_error (imagePush example_env bad_request empty_response) =
     Some (DockerError bad_reference ''invalid repository name'')
   \<and> next_error (imageTag example_env bad_request empty_response) =
     Some (DockerError bad_reference ''invalid repository name'')
   \<and> next_error (imageSearch example_env bad_request empty_response) =
     Some (ValidationError bad_reference ''invalid repository name'')"
proof -
  have 1: "req_query bad_request ''fromSrc'' = None
      \<and> parseRepoAndRef example_env (req_query bad_request ''fromImage'') = Inl bad_reference"
    by (simp add: example_defs)
  have 2: "arrayOfObject (req_images bad_request) \<and> arrayOfObject (req_imageTags bad_request)
      \<and> parseRepoAndTag example_env (req_params_name bad_request) = Inl bad_reference"
    by (simp add: example_defs)
  have 3: "parseRepoAndTag example_env (Some (tag_reference bad_request)) = Inl bad_reference"
    by (simp add: example_defs tag_reference_def or_empty_def truthy_param_def)
  have 4: "parseRepo example_env (req_query bad_request ''term'') = Inl bad_reference"
    by (simp add: example_defs)
  show ?thesis
    using malformed_reference [of bad_request example_env bad_reference empty_response] 1 2 3 4
    by (simp add: next_error_def exn_toString_def bad_reference_def)
qed


text \<open>
  What \<^verbatim>\<open>writeProgress\<close> adds to the response for an event is one chunk, the JSON text of
  the event.
\<close>

lemma writeProgress_chunk:
  assumes "writeProgress res (Obj ps) = Inr written"
  shows "fst written = res_write res (event_json (Obj ps))"
  using assms
  by (cases "field ps ''id''"; cases "truthy (field ps ''progressDetail'')")
     (auto simp: writeProgress_def formatProgress_def ebind_def write_json_def JSON_stringify_def
        event_json_def progress_object_def short_id_def field_set_prop split: if_splits)

lemma writeProgress_seq_chunks:
  assumes "list_all plain_object ps" and "writeProgress_seq res ps = Inr res'"
  shows "res_chunks res' = res_chunks res @ map event_json ps"
  using assms
proof (induction ps arbitrary: res)
  case Nil
  then show ?case by simp
next
  case (Cons p ps)
  from Cons.prems(1) obtain fields where p: "p = Obj fields" and rest_plain: "list_all plain_object ps"
    by (cases p) auto
  from Cons.prems(2) obtain written where w: "writeProgress res p = Inr written"
    and rest: "writeProgress_seq (fst written) ps = Inr res'"
    by (auto simp: ebind_def split: sum.splits)
  have "res_chunks (fst written) = res_chunks res @ [event_json p]"
    using writeProgress_chunk[of res fields written] w p by (simp add: res_write_def)
  then show ?case
    using Cons.IH[OF rest_plain rest] by simp
qed

lemma push_pipeline_appends:
  assumes "appends_only env"
    and "push_pipeline env rat imgs tags idx res calls = Inr fin"
  shows "take (length (res_chunks res)) (res_chunks (fst (snd fin))) = res_chunks res"
  using assms
proof (induction env rat imgs tags idx res calls rule: push_pipeline.induct)
  case (1 env rat imageTags idx res calls)
  then show ?case by auto
next
  case (2 env rat img imgs imageTags idx res calls)
  note run = "2.prems"(2)
  from run have idx: "idx < length imageTags"
    by (auto split: if_splits)
  from run idx obtain tag where tag: "js_get (imageTags ! idx) ''tag'' = Inr tag"
    by (auto simp: ebind_def split: sum.splits)
  let ?rat1 = "rat\<lparr>rat_tag := tag\<rparr>"
  let ?s = "rat_canonicalName ?rat1 @ '':'' @ js_to_string tag"
  let ?pushed = "pushImage env img ?rat1 ?s res"
  have step: "take (length (res_chunks res)) (res_chunks (snd ?pushed)) = res_chunks res"
    using "2.prems"(1) unfolding appends_only_def by blast
  show ?case
  proof (cases "truthy (fst ?pushed)")
    case True
    then have "fst (snd fin) = snd ?pushed"
      using run idx tag by (auto simp: ebind_def Let_def)
    then show ?thesis using step by simp
  next
    case False
    then have rec: "push_pipeline env ?rat1 imgs imageTags (idx + 1) (snd ?pushed)
        (calls @ [PushImage img ?rat1 ?s]) = Inr fin"
      using run idx tag by (auto simp: ebind_def Let_def)
    have ih: "take (length (res_chunks (snd ?pushed))) (res_chunks (fst (snd fin)))
        = res_chunks (snd ?pushed)"
      using "2.IH"[OF idx refl refl refl refl False "2.prems"(1) rec] .
    have "length (take (length (res_chunks res)) (res_chunks (snd ?pushed)))
        = length (res_chunks res)"
      using step by simp
    then have le: "length (res_chunks res) \<le> length (res_chunks (snd ?pushed))"
      by (simp add: min_def split: if_splits)
    have "take (length (res_chunks res)) (res_chunks (fst (snd fin)))
        = take (length (res_chunks res))
            (take (length (res_chunks (snd ?pushed))) (res_chunks (fst (snd fin))))"
      using le by (simp add: min_def)
    then have "take (length (res_chunks res)) (res_chunks (fst (snd fin)))
        = take (length (res_chunks res)) (res_chunks (snd ?pushed))"
      by (simp only: ih)
    then show ?thesis using step by simp
  qed
qed

lemma imagePush_first_chunk:
  assumes "appends_only env" and "parseRepoAndTag env (req_params_name req) = Inr rat"
    and "imagePush env req res = Inr out"
  shows "take (Suc (length (res_chunks res))) (res_chunks (out_res out)) =
     res_chunks res @ [stringify (push_message (rat_canonicalName rat)) @ [CHR 0x0D, CHR 0x0A]]"
proof -
  let ?res2 = "res_write (res_header (res_set_status res 200) ''Content-Type'' ''application/json'')
      (stringify (push_message (rat_canonicalName rat)) @ [CHR 0x0D, CHR 0x0A])"
  from assms(2,3) obtain fin where
    run: "push_pipeline env rat (elements (req_images req)) (elements (req_imageTags req)) 0 ?res2 []
        = Inr fin"
    and out: "out_res out = res_end (fst (snd fin))"
    by (auto simp: imagePush_def ebind_def Let_def split: if_splits sum.splits)
  have "take (length (res_chunks ?res2)) (res_chunks (fst (snd fin))) = res_chunks ?res2"
    using push_pipeline_appends[OF assms(1) run] .
  then show ?thesis
    using out by (simp add: res_write_def res_header_def res_set_status_def res_end_def)
qed

text \<open>
  Claim C7, as the code has it. Progress events (objects) written with \<^verbatim>\<open>writeProgress\<close>
  add one chunk each to the body, in order, and the chunk of an event is its JSON text
  \<open>event_json\<close> and nothing else, so consecutive events follow each other with nothing in
  between. The opening message of \<^verbatim>\<open>imagePush\<close> is one chunk as well, the first of the
  response, and ends with a carriage return and a line feed.
\<close>

theorem progress_events_written:
  "(list_all plain_object ps \<and> writeProgress_seq res ps = Inr res' \<longrightarrow>
      res_chunks res' = res_chunks res @ map event_json ps)
   \<and> (appends_only env \<and> parseRepoAndTag env (req_params_name req) = Inr rat
        \<and> imagePush env req res = Inr out \<longrightarrow>
      take (Suc (length (res_chunks res))) (res_chunks (out_res out)) =
        res_chunks res @ [stringify (push_message (rat_canonicalName rat)) @ [CHR 0x0D, CHR 0x0A]])"
proof (intro conjI impI)
  assume "list_all plain_object ps \<and> writeProgress_seq res ps = Inr res'"
  then show "res_chunks res' = res_chunks res @ map event_json ps"
    using writeProgress_seq_chunks[of ps res res'] by simp
next
  assume a: "appends_only env \<and> parseRepoAndTag env (req_params_name req) = Inr rat
      \<and> imagePush env req res = Inr out"
  show "take (Suc (length (res_chunks res))) (res_chunks (out_res out)) =
      res_chunks res @ [stringify (push_message (rat_canonicalName rat)) @ [CHR 0x0D, CHR 0x0A]]"
    using a by (intro imagePush_first_chunk[of env req rat res out]) simp_all
qed

lemma appends_only_example: "appends_only example_env"
  unfolding appends_only_def
proof (intro allI)
  fix img rat s res
  show "take (length (res_chunks res)) (res_chunks (snd (pushImage example_env img rat s res)))
      = res_chunks res"
  proof (cases "writeProgress res pushed_event")
    case (Inl e)
    then show ?thesis by (simp add: example_env_def)
  next
    case (Inr written)
    then have "fst written = res_write res (event_json pushed_event)"
      using writeProgress_chunk[of res _ written] by (simp add: pushed_event_def)
    then show ?thesis
      using Inr by (simp add: example_env_def res_write_def)
  qed
qed


theorem progress_events_written_witness:
  \<open>list_all plain_object [pushed_event, pushed_event]
   \<and> writeProgress_seq empty_response [pushed_event, pushed_event] =
     Inr (empty_response\<lparr>res_chunks :=
       [''{"id":"0123456789ab","status":"Pushed","progressDetail":{}}'',
        ''{"id":"0123456789ab","status":"Pushed","progressDetail":{}}'']\<rparr>)
   \<and> map event_json [pushed_event, pushed_event] =
       [''{"id":"0123456789ab","status":"Pushed","progressDetail":{}}'',
        ''{"id":"0123456789ab","status":"Pushed","progressDetail":{}}'']
   \<and> parseRepoAndTag example_env (req_params_name (request_of [] ''busybox'')) = Inr busybox
   \<and> take (Suc 0) (written_chunks (imagePush example_env (request_of [] ''busybox'') empty_response))
       = [''{"status":"The push refers to a repository [docker.io/busybox]"}''
          @ [CHR 0x0D, CHR 0x0A]]\<close>
proof -
  let ?ev = \<open>''{"id":"0123456789ab","status":"Pushed","progressDetail":{}}''\<close>
  have plain: "list_all plain_object [pushed_event, pushed_event]"
    by (simp add: pushed_event_def)
  have seq: "writeProgress_seq empty_response [pushed_event, pushed_event] =
     Inr (empty_response\<lparr>res_chunks := [?ev, ?ev]\<rparr>)"
    by (simp add: handler_defs example_defs json_defs)
  have parse: "parseRepoAndTag example_env (req_params_name (request_of [] ''busybox'')) = Inr busybox"
    by (simp add: example_defs)
  have "\<exists>out. imagePush example_env (request_of [] ''busybox'') empty_response = Inr out"
    by (simp add: imagePush_def handler_defs example_defs json_defs)
  then obtain out where out: "imagePush example_env (request_of [] ''busybox'') empty_response = Inr out"
    by (rule exE)
  note th = progress_events_written [of "[pushed_event, pushed_event]" empty_response
        "empty_response\<lparr>res_chunks := [?ev, ?ev]\<rparr>" example_env "request_of [] ''busybox''"
        busybox out]
  have "res_chunks (empty_response\<lparr>res_chunks := [?ev, ?ev]\<rparr>) =
      res_chunks empty_response @ map event_json [pushed_event, pushed_event]"
    by (rule th[THEN conjunct1, THEN mp]) (simp only: plain seq simp_thms)
  then have texts: "map event_json [pushed_event, pushed_event] = [?ev, ?ev]"
    by (simp add: empty_response_def)
  have "take (Suc (length (res_chunks empty_response))) (res_chunks (out_res out)) =
      res_chunks empty_response
      @ [stringify (push_message (rat_canonicalName busybox)) @ [CHR 0x0D, CHR 0x0A]]"
    by (rule th[THEN conjunct2, THEN mp]) (simp only: appends_only_example parse out simp_thms)
  then have push: \<open>take (Suc 0)
      (written_chunks (imagePush example_env (request_of [] ''busybox'') empty_response))
       = [''{"status":"The push refers to a repository [docker.io/busybox]"}''
          @ [CHR 0x0D, CHR 0x0A]]\<close>
    using out by (simp add: written_chunks_def empty_response_def busybox_def json_defs)
  show ?thesis using plain seq texts parse push by simp
qed

section \<open>Properties of the resource resolver\<close>











end
